theory Spec2Isabelle
  imports Main "HOL-Library.Word" "HOL-Library.Signed_Division"
begin

section \<open>Integer arithmetic of the source\<close>

text \<open>
  The projectile code computes with \<open>int32_t\<close>, \<open>uint32_t\<close>, \<open>int64_t\<close> and \<open>uint64_t\<close>.
  A machine integer is modelled by its value, an \<open>int\<close>, and every operation of the source is
  followed by the conversion to the type in which C++ performs it: \<open>i32\<close>, \<open>u32\<close>, \<open>i64\<close> and
  \<open>u64\<close> reduce a mathematical result to the value of its low 32 or 64 bits.  Sums, differences
  and products commute with these reductions, so an expression of one type is reduced once, at
  its end; a quotient is computed on the reduced operands.  Signed overflow is undefined in
  C++: the model gives it the two's-complement result of the compiled code.  C++ division \<open>/\<close>
  truncates towards zero: it is \<open>sdiv\<close> here (\<open>div\<close> where both operands are unsigned).
  Unsigned 32-bit game times are \<open>32 word\<close>.
\<close>

definition i32 :: "int \<Rightarrow> int" where
  "i32 x = (x + 2147483648) mod 4294967296 - 2147483648"

definition u32 :: "int \<Rightarrow> int" where
  "u32 x = x mod 4294967296"

definition i64 :: "int \<Rightarrow> int" where
  "i64 x = (x + 9223372036854775808) mod 18446744073709551616 - 9223372036854775808"

definition u64 :: "int \<Rightarrow> int" where
  "u64 x = x mod 18446744073709551616"

text \<open>\<open>MAX\<close> and \<open>MIN\<close> are the macros of lib/framework: they are \<open>max\<close> and \<open>min\<close>.\<close>

text \<open>
  Modelled from the spec: \<open>i64Sqrt\<close> and \<open>iSqrt\<close> (lib/framework/math_ext, not among the
  sources).  The source says of them "i64Sqrt rounds down": the integer square root.  Their
  parameters are unsigned (\<open>uint64_t\<close> and \<open>uint32_t\<close>), so a negative argument is converted at
  the call, and the result is a \<open>uint32_t\<close>.
\<close>

fun sqrt_floor :: "nat \<Rightarrow> nat" where
  "sqrt_floor n =
     (if n < 2 then n
      else let r = 2 * sqrt_floor (n div 4)
           in if (r + 1) * (r + 1) \<le> n then r + 1 else r)"

declare sqrt_floor.simps [simp del]

definition i64Sqrt :: "int \<Rightarrow> int" where
  "i64Sqrt n = int (sqrt_floor (nat (u64 n)))"

definition iSqrt :: "int \<Rightarrow> int" where
  "iSqrt n = int (sqrt_floor (nat (u32 n)))"

section \<open>Collision geometry\<close>

record Vector3i =
  vec_x :: int
  vec_y :: int
  vec_z :: int

text \<open>
  \<open>struct INTERVAL { int begin, end; }\<close>: time 1 is 0, time 2 is 1024, and the interval is
  empty when \<open>begin >= end\<close>.
\<close>

record INTERVAL =
  i_begin :: int
  i_end :: int

text \<open>
  \<open>ObjectShape\<close> (declared in baseobject.h, not among the sources): a flag and a size;
  \<open>radius()\<close> is the first component of the size.
\<close>

record ObjectShape =
  isRectangular :: bool
  size_x :: int
  size_y :: int

definition radius :: "ObjectShape \<Rightarrow> int" where
  "radius shape = size_x shape"

definition intervalIntersection :: "INTERVAL \<Rightarrow> INTERVAL \<Rightarrow> INTERVAL" where
  "intervalIntersection i1 i2 =
     \<lparr>i_begin = max (i_begin i1) (i_begin i2), i_end = min (i_end i1) (i_end i2)\<rparr>"

definition intervalEmpty :: "INTERVAL \<Rightarrow> bool" where
  "intervalEmpty i \<longleftrightarrow> i_begin i \<ge> i_end i"

definition collisionZ :: "int \<Rightarrow> int \<Rightarrow> int \<Rightarrow> INTERVAL" where
  "collisionZ z1 z2 height =
     (let z1' = (if z1 > z2 then i32 (- z1) else z1);
          z2' = (if z1 > z2 then i32 (- z2) else z2)
      in if z1' > height \<or> z2' < i32 (- height) then \<lparr>i_begin = -1, i_end = -1\<rparr>
         else if z1' = z2' then
           (if z1' \<ge> i32 (- height) \<and> z1' \<le> height then \<lparr>i_begin = 0, i_end = 1024\<rparr>
            else \<lparr>i_begin = -1, i_end = -1\<rparr>)
         else \<lparr>i_begin = i32 (i32 (1024 * (- height - z1')) sdiv i32 (z2' - z1')),
               i_end = i32 (i32 (1024 * (height - z1')) sdiv i32 (z2' - z1'))\<rparr>)"

text \<open>
  \<open>collisionXY\<close>: the differences are \<open>int32_t\<close>, the coefficients \<open>int64_t\<close>, \<open>sd\<close> is the
  \<open>uint32_t\<close> root stored in an \<open>int32_t\<close>, and the two quotients are \<open>int64_t\<close> values stored in
  the \<open>int\<close> fields of the interval.
\<close>

definition collisionXY :: "int \<Rightarrow> int \<Rightarrow> int \<Rightarrow> int \<Rightarrow> int \<Rightarrow> INTERVAL" where
  "collisionXY x1 y1 x2 y2 rad =
     (let dx = i32 (x2 - x1); dy = i32 (y2 - y1);
          a = i64 (dx * dx + dy * dy);
          b = i64 (x1 * dx + y1 * dy);
          c = i64 (x1 * x1 + y1 * y1 - rad * rad);
          d = i64 (b * b - a * c)
      in if d < 0 then \<lparr>i_begin = -1, i_end = -1\<rparr>
         else if a = 0 then
           (if c < 0 then \<lparr>i_begin = 0, i_end = 1024\<rparr> else \<lparr>i_begin = -1, i_end = -1\<rparr>)
         else let sd = i32 (i64Sqrt d)
              in \<lparr>i_begin = i32 (max 0 (i64 (i64 (1024 * (- b - sd)) sdiv a))),
                  i_end = i32 (min 1024 (i64 (i64 (1024 * (- b + sd)) sdiv a)))\<rparr>)"

definition collisionXYZ :: "Vector3i \<Rightarrow> Vector3i \<Rightarrow> ObjectShape \<Rightarrow> int \<Rightarrow> int" where
  "collisionXYZ v1 v2 shape height =
     (let i = collisionZ (vec_z v1) (vec_z v2) height
      in if \<not> intervalEmpty i then
           (let i' =
              (if isRectangular shape then
                 (let ix = intervalIntersection i (collisionZ (vec_x v1) (vec_x v2) (size_x shape))
                  in if \<not> intervalEmpty ix
                     then intervalIntersection ix (collisionZ (vec_y v1) (vec_y v2) (size_y shape))
                     else ix)
               else intervalIntersection i
                      (collisionXY (vec_x v1) (vec_y v1) (vec_x v2) (vec_y v2) (radius shape)))
            in if \<not> intervalEmpty i' then max 0 (i_begin i') else -1)
         else -1)"

section \<open>Trajectory solver\<close>

text \<open>
  \<open>GAME_TICKS_PER_SEC\<close> (gtime.h) and \<open>ACC_GRAVITY\<close> (projectile.h) are macros of headers that
  are not among the sources, and the fixed-point trigonometry \<open>iSin\<close>, \<open>iCos\<close>, \<open>iAtan2\<close>
  (lib/framework/trig) is table driven: all of them are parameters of the model.  The source
  asserts statically that \<open>GAME_TICKS_PER_SEC / ACC_GRAVITY * ACC_GRAVITY = GAME_TICKS_PER_SEC\<close>.
  \<open>gameRand limit\<close> draws from the synchronised generator: it is a function of the generator's
  state that returns the draw and the next state.
\<close>

record SOLVER_ENV =
  GAME_TICKS_PER_SEC :: int
  ACC_GRAVITY :: int
  iSin :: "int \<Rightarrow> int"
  iCos :: "int \<Rightarrow> int"
  iAtan2 :: "int \<Rightarrow> int \<Rightarrow> int"
  gameRand :: "nat \<Rightarrow> int \<Rightarrow> int \<times> nat"

text \<open>
  \<open>randomVariation\<close>: "Up to +-5% random variation."  \<open>gameRand\<close> returns a \<open>uint32_t\<close>, so the
  factor is an unsigned 32-bit sum; the product and the quotient are \<open>int64_t\<close>, and the result
  is returned as an \<open>int32_t\<close>.  The second component is the generator's next state.
\<close>

definition randomVariation :: "('a SOLVER_ENV_scheme) \<Rightarrow> nat \<Rightarrow> int \<Rightarrow> int \<times> nat" where
  "randomVariation env seed val =
     (let (r, seed') = gameRand env seed 10001
      in (i32 (i64 (val * u32 (95000 + r)) sdiv 100000), seed'))"

text \<open>
  \<open>projCalcIndirectVelocities dx dz v min_angle\<close> returns the flight time \<open>t\<close> and stores \<open>vx\<close> and
  \<open>vz\<close>: the result is \<open>(t, vx, vz)\<close> with the generator's next state.  \<open>a\<close>, \<open>t\<close>, \<open>vx\<close> and \<open>vz\<close>
  are \<open>int32_t\<close>, \<open>b\<close> is a \<open>uint64_t\<close>, \<open>c\<close> and \<open>mytan\<close> are \<open>int64_t\<close>; the square roots
  return \<open>uint32_t\<close>, and \<open>MAX(1, ...)\<close> compares unsigned values.  The one division whose
  divisor is data is by \<open>iCos min_angle\<close>: where it is zero the C++ traps, and the model returns
  \<open>None\<close>.  The other divisors are \<open>t\<close>, which is never zero, and expressions of the two macros.
\<close>

definition projCalcIndirectVelocities ::
  "('a SOLVER_ENV_scheme) \<Rightarrow> nat \<Rightarrow> int \<Rightarrow> int \<Rightarrow> int \<Rightarrow> int \<Rightarrow> ((int \<times> int \<times> int) \<times> nat) option" where
  "projCalcIndirectVelocities env seed dx dz v min_angle =
     (let g = ACC_GRAVITY env;
          T = GAME_TICKS_PER_SEC env;
          (rv, seed') = randomVariation env seed (i32 (v * v));
          a0 = i32 (rv - dz * g);
          b = u64 (i32 (g * g) * (dx * dx + dz * dz));
          c0 = i64 (a0 * a0 - b);
          a = (if c0 < 0 then i32 (i64Sqrt b + 1) else a0);
          c = (if c0 < 0 then i64 (a * a - b) else c0);
          t1 = i32 (max 1 (u32 (iSqrt (2 * (a - i64Sqrt c)) * (T sdiv g))));
          vx1 = i32 (i32 (dx * T) sdiv t1);
          vz1 = i32 (i32 (dz * T) sdiv t1 + i32 (g * t1) sdiv i32 (2 * T));
          t2 = (if vz1 < 0 then i32 (max 1 (i64Sqrt (u64 (i32 (- 2 * dz) * T * T) div u64 g))) else t1);
          vx2 = (if vz1 < 0 then i32 (i32 (dx * T) sdiv t2) else vx1);
          vz2 = (if vz1 < 0 then 0 else vz1)
      in if iAtan2 env vz2 vx2 < min_angle then
           (if iCos env min_angle = 0 then None
            else let mytan = i64 (i64 (iSin env min_angle * 65536) sdiv iCos env min_angle);
                     t3 = i32 (max 1 (i64Sqrt (i64 (2 * (dx * mytan - i32 (dz * 65536)) * T * T)
                                                 sdiv i32 (g * 65536))));
                     vx3 = i32 (i32 (dx * T) sdiv t3);
                     vz3 = i32 (i64 (mytan * vx3) sdiv 65536)
                 in Some ((t3, vx3, vz3), seed'))
         else Some ((t2, vx2, vz2), seed'))"


definition heightError :: "int \<Rightarrow> int \<Rightarrow> int \<Rightarrow> int \<Rightarrow> int \<Rightarrow> int" where
  "heightError T g dz t vz = 2 * T * (vz * t) - g * t * t - 2 * T * T * dz"


section \<open>Data model of the projectile subsystem\<close>

text \<open>
  The declarations of basedef.h, projectiledef.h, statsdef.h and weapondef.h are not among the
  sources: the records below hold the fields that projectile.cpp reads and writes, under the
  names it uses.  \<open>type\<close> and \<open>id\<close> are \<open>otype\<close> and \<open>obj_id\<close>.  A pointer to a game object is
  the object's index in the world's object table, \<open>nullptr\<close> is \<open>None\<close>.  Audio, visual effects,
  score and multiplayer statistics have no result this code consumes and are left out, and
  with them \<open>bVisible\<close> and \<open>gfxVisible\<close>, which only guard them.
\<close>

datatype OBJECT_TYPE = OBJ_DROID | OBJ_STRUCTURE | OBJ_FEATURE | OBJ_PROJECTILE

datatype PROJ_STATE = PROJ_INFLIGHT | PROJ_IMPACT | PROJ_POSTIMPACT | PROJ_INACTIVE

datatype MOVEMENT_MODEL = MM_DIRECT | MM_INDIRECT | MM_HOMINGDIRECT | MM_HOMINGINDIRECT

datatype WEAPON_SUBCLASS =
    WSC_MGUN | WSC_CANNON | WSC_MORTARS | WSC_MISSILE | WSC_ROCKET | WSC_ENERGY | WSC_GAUSS
  | WSC_FLAME | WSC_HOWITZERS | WSC_ELECTRONIC | WSC_AAGUN | WSC_SLOWMISSILE | WSC_SLOWROCKET
  | WSC_LAS_SAT | WSC_BOMB | WSC_COMMAND | WSC_EMP

datatype MOVE_STATUS = MOVEINACTIVE | MOVEACTIVE

datatype DROID_ORDER_TYPE = DORDER_NONE | DORDER_OTHER

record Rotation =
  direction :: int
  pitch :: int
  roll :: int

record Spacetime =
  st_time :: "32 word"
  st_pos :: Vector3i
  st_rot :: Rotation

text \<open>The per-player upgradeable part of the weapon stats, \<open>psStats->upgrade[player]\<close>.\<close>

record WEAPON_UPGRADE =
  maxRange :: int
  upg_radius :: int
  empRadius :: int
  periodicalDamageRadius :: int
  periodicalDamageTime :: int
  minimumDamage :: int

text \<open>
  \<open>surfaceToAir & SHOOT_ON_GROUND\<close> and \<open>surfaceToAir & SHOOT_IN_AIR\<close> are the two flags
  \<open>shootOnGround\<close> and \<open>shootInAir\<close>; \<open>flags.test(WEAPON_FLAG_NO_FRIENDLY_FIRE)\<close> is
  \<open>noFriendlyFire\<close>.
\<close>

record WEAPON_STATS =
  movementModel :: MOVEMENT_MODEL
  weaponClass :: nat
  weaponSubClass :: WEAPON_SUBCLASS
  weaponEffect :: nat
  periodicalDamageWeaponClass :: nat
  periodicalDamageWeaponSubClass :: WEAPON_SUBCLASS
  periodicalDamageWeaponEffect :: nat
  flightSpeed :: "32 word"
  penetrate :: bool
  shootOnGround :: bool
  shootInAir :: bool
  distanceExtensionFactor :: int
  radiusLife :: int
  noFriendlyFire :: bool
  upgrade :: "nat \<Rightarrow> WEAPON_UPGRADE"

record SIMPLE_OBJECT =
  otype :: OBJECT_TYPE
  obj_id :: "32 word"
  pos :: Vector3i
  rot :: Rotation
  player :: nat
  born :: "32 word"
  died :: "32 word"
  time :: "32 word"

text \<open>
  A game object: the fields of \<open>BASE_OBJECT\<close> and those of \<open>DROID\<close>, \<open>STRUCTURE\<close> and \<open>FEATURE\<close>
  that this code touches (\<open>droid_prevSpacetime\<close> is the droid's \<open>prevSpacetime\<close>, \<open>damageable\<close> the
  feature's \<open>psStats->damageable\<close>, \<open>psCommander\<close> the droid's \<open>psGroup->psCommander\<close> when
  \<open>hasCommander\<close> holds, \<open>psTarget0\<close> the structure's \<open>psTarget[0]\<close>).
    Modelled from the spec: \<open>expectedDamage\<close>, the forward-accounting total that
  \<open>aiObjectAddExpectedDamage\<close> (ai.cpp, not among the sources) keeps on the target.
\<close>

record BASE_OBJECT = SIMPLE_OBJECT +
  expectedDamage :: "32 word"
  periodicalDamageStart :: "32 word"
  periodicalDamage :: "32 word"
  droid_prevSpacetime :: Spacetime
  sMove_moveDir :: int
  sMove_speed :: int
  sMove_Status :: MOVE_STATUS
  experience :: int
  kills :: int
  order_type :: DROID_ORDER_TYPE
  psCommander :: "nat option"
  damageable :: bool
  psTarget0 :: "nat option"

text \<open>
  \<open>psWStats\<close> points into the immutable table \<open>asWeaponStats\<close>: the projectile holds the entry.
\<close>

record PROJECTILE = SIMPLE_OBJECT +
  state :: PROJ_STATE
  psWStats :: WEAPON_STATS
  psSource :: "nat option"
  psDest :: "nat option"
  psDamaged :: "nat list"
  src :: Vector3i
  dst :: Vector3i
  vXY :: int
  vZ :: int
  prevSpacetime :: Spacetime
  expectedDamageCaused :: "32 word"
  partVisible :: int

text \<open>
  \<open>struct DAMAGE\<close>.  \<open>dmg_psDest\<close> is its \<open>psDest\<close>, the object being damaged.
\<close>

record DAMAGE =
  psProjectile :: PROJECTILE
  dmg_psDest :: nat
  damage :: int
  dmg_weaponClass :: nat
  dmg_weaponSubClass :: WEAPON_SUBCLASS
  impactTime :: "32 word"
  isDamagePerSecond :: bool
  minDamage :: int
  empRadiusHit :: bool

text \<open>
  The mutable globals this code reads and writes, with the table of game objects.
  \<open>tileFire\<close> records the calls of \<open>tileSetFire\<close>.
\<close>

record WORLD =
  gameTime :: "32 word"
  deltaGameTime :: "32 word"
  bMultiPlayer :: bool
  objects :: "nat \<Rightarrow> BASE_OBJECT"
  gameRandState :: nat
  projectileTrackerIDIncrement :: "32 word"
  experienceGain :: "nat \<Rightarrow> int"
  g_pProjLastAttacker :: "nat option"
  tileFire :: "(int \<times> int \<times> int) list"

text \<open>
  The \<open>SIMPLE_OBJECT *psAttacker\<close> of a shot is a game object or, for a penetration child, the
  parent projectile; \<open>nullptr\<close> is \<open>None\<close>.
\<close>

datatype ATTACKER = AttackerObject nat | AttackerProjectile PROJECTILE

section \<open>Collaborators\<close>

text \<open>
  Everything projectile.cpp calls outside itself is a parameter: the macros of absent headers,
  the fixed-point vector functions, the terrain, the spatial grid, the alliance table, the
  per-kind damage handlers and the droid, order and statistics functions.  Each is a function of
  exactly what the call passes (and of the world where the callee reads globals); a callee that
  mutates the object it is given returns the new object.
\<close>

record ENV = SOLVER_ENV +
  MAX_PLAYERS :: nat
  TILE_UNITS :: int
  LINE_OF_FIRE_MINIMUM :: int
  world_coord_mapWidth :: int
  world_coord_mapHeight :: int
  iHypot :: "int \<Rightarrow> int \<Rightarrow> int"
  iHypot3 :: "Vector3i \<Rightarrow> int"
  iSinCosR :: "int \<Rightarrow> int \<Rightarrow> int \<times> int"
  quantiseFraction :: "Vector3i \<Rightarrow> int \<Rightarrow> 32 word \<Rightarrow> 32 word \<Rightarrow> Vector3i"
  map_Height :: "int \<Rightarrow> int \<Rightarrow> int"
  map_LineIntersect :: "Vector3i \<Rightarrow> Vector3i \<Rightarrow> 32 word \<Rightarrow> 32 word"
  worldOnMap :: "int \<Rightarrow> int \<Rightarrow> bool"
  gridStartIterate :: "WORLD \<Rightarrow> int \<Rightarrow> int \<Rightarrow> int \<Rightarrow> nat list"
  aiCheckAlliances :: "nat \<Rightarrow> nat \<Rightarrow> bool"
  establishTargetHeight :: "WORLD \<Rightarrow> BASE_OBJECT \<Rightarrow> int"
  establishTargetShape :: "BASE_OBJECT \<Rightarrow> ObjectShape"
  interpolateObjectSpacetime :: "PROJECTILE \<Rightarrow> 32 word \<Rightarrow> Spacetime"
  isDead :: "BASE_OBJECT \<Rightarrow> bool"
  isFlying :: "BASE_OBJECT \<Rightarrow> bool"
  isVtol :: "BASE_OBJECT \<Rightarrow> bool"
  propulsionTravelAir :: "BASE_OBJECT \<Rightarrow> bool"
  Vector3i_InSphere :: "Vector3i \<Rightarrow> Vector3i \<Rightarrow> int \<Rightarrow> bool"
  structStrengthModifier :: "nat \<Rightarrow> BASE_OBJECT \<Rightarrow> int"
  weaponModifier :: "nat \<Rightarrow> BASE_OBJECT \<Rightarrow> int"
  weaponModifierBody :: "nat \<Rightarrow> BASE_OBJECT \<Rightarrow> int"
  weaponDamage :: "WEAPON_STATS \<Rightarrow> nat \<Rightarrow> int"
  weaponRadDamage :: "WEAPON_STATS \<Rightarrow> nat \<Rightarrow> int"
  weaponPeriodicalDamage :: "WEAPON_STATS \<Rightarrow> nat \<Rightarrow> int"
  droidDamage :: "BASE_OBJECT \<Rightarrow> DAMAGE \<Rightarrow> BASE_OBJECT \<times> int"
  structureDamage :: "BASE_OBJECT \<Rightarrow> DAMAGE \<Rightarrow> BASE_OBJECT \<times> int"
  featureDamage :: "BASE_OBJECT \<Rightarrow> DAMAGE \<Rightarrow> BASE_OBJECT \<times> int"
  electronicDamage :: "BASE_OBJECT \<Rightarrow> int \<Rightarrow> nat \<Rightarrow> BASE_OBJECT \<times> bool"
  actionDroid_NONE :: "BASE_OBJECT \<Rightarrow> BASE_OBJECT"
  calcDroidPower :: "BASE_OBJECT \<Rightarrow> int"
  calcDroidPoints :: "BASE_OBJECT \<Rightarrow> int"
  cmdDroidGetDesignator :: "WORLD \<Rightarrow> nat \<Rightarrow> nat option"
  designatorAttacks :: "BASE_OBJECT \<Rightarrow> nat option \<Rightarrow> bool"
  orderStateObj_FIRESUPPORT :: "BASE_OBJECT \<Rightarrow> nat option"
  objGuessFutureDamage :: "WORLD \<Rightarrow> WEAPON_STATS \<Rightarrow> nat \<Rightarrow> nat option \<Rightarrow> 32 word"
  calcMuzzleLocation :: "BASE_OBJECT \<Rightarrow> int \<Rightarrow> Vector3i"
  updateVtolAttackRun :: "BASE_OBJECT \<Rightarrow> int \<Rightarrow> BASE_OBJECT"
  areaOfFire :: "WORLD \<Rightarrow> ATTACKER option \<Rightarrow> nat \<Rightarrow> int \<Rightarrow> int"
  setWeaponPitch :: "BASE_OBJECT \<Rightarrow> int \<Rightarrow> int \<Rightarrow> WEAPON_STATS \<Rightarrow> BASE_OBJECT"
  counterBatteryFire :: "WORLD \<Rightarrow> nat option \<Rightarrow> nat option \<Rightarrow> WORLD"
  asWeaponStats :: "WEAPON_STATS list"

section \<open>Destination bookkeeping and firing\<close>

text \<open>The components of a \<open>Vector3i\<close> are \<open>int32_t\<close>: its arithmetic is componentwise and 32-bit.\<close>

definition vec_add :: "Vector3i \<Rightarrow> Vector3i \<Rightarrow> Vector3i" where
  "vec_add a b = \<lparr>vec_x = i32 (vec_x a + vec_x b), vec_y = i32 (vec_y a + vec_y b),
                 vec_z = i32 (vec_z a + vec_z b)\<rparr>"

definition vec_sub :: "Vector3i \<Rightarrow> Vector3i \<Rightarrow> Vector3i" where
  "vec_sub a b = \<lparr>vec_x = i32 (vec_x a - vec_x b), vec_y = i32 (vec_y a - vec_y b),
                 vec_z = i32 (vec_z a - vec_z b)\<rparr>"

text \<open>\<open>v * m / d\<close> on a \<open>Vector3i\<close>: each component is multiplied, then divided with truncation.\<close>

definition vec_muldiv :: "Vector3i \<Rightarrow> int \<Rightarrow> int \<Rightarrow> Vector3i" where
  "vec_muldiv v m d =
     \<lparr>vec_x = i32 (i32 (vec_x v * m) sdiv d), vec_y = i32 (i32 (vec_y v * m) sdiv d),
      vec_z = i32 (i32 (vec_z v * m) sdiv d)\<rparr>"

definition vec_scale :: "Vector3i \<Rightarrow> int \<Rightarrow> Vector3i" where
  "vec_scale v m = \<lparr>vec_x = i32 (vec_x v * m), vec_y = i32 (vec_y v * m), vec_z = i32 (vec_z v * m)\<rparr>"

definition clip :: "int \<Rightarrow> int \<Rightarrow> int \<Rightarrow> int" where
  "clip x lo hi = (if x < lo then lo else if x > hi then hi else x)"

definition zeroVector :: Vector3i where
  "zeroVector = \<lparr>vec_x = 0, vec_y = 0, vec_z = 0\<rparr>"

definition zeroRotation :: Rotation where
  "zeroRotation = \<lparr>direction = 0, pitch = 0, roll = 0\<rparr>"

definition ProjectileTrackerID :: "32 word" where
  "ProjectileTrackerID = 0xdead0000"

definition proj_Direct :: "WEAPON_STATS \<Rightarrow> bool" where
  "proj_Direct psStats =
     (case movementModel psStats of
        MM_DIRECT \<Rightarrow> True
      | MM_HOMINGDIRECT \<Rightarrow> True
      | MM_INDIRECT \<Rightarrow> False
      | MM_HOMINGINDIRECT \<Rightarrow> False)"

text \<open>\<open>ASSERT_PLAYER_OR_RETURN(0, player)\<close>: an invalid player has range 0.\<close>

definition proj_GetLongRange :: "ENV \<Rightarrow> WEAPON_STATS \<Rightarrow> nat \<Rightarrow> int" where
  "proj_GetLongRange env psStats plr =
     (if plr < MAX_PLAYERS env then maxRange (upgrade psStats plr) else 0)"

text \<open>
  Modelled from the spec: \<open>aiObjectAddExpectedDamage\<close> (ai.cpp, not among the sources), the
  "explicit transactional API" on the target object: it adds the signed amount, in 32-bit
  arithmetic, to the total registered on the object, and does nothing on \<open>nullptr\<close>.
\<close>

definition aiObjectAddExpectedDamage :: "WORLD \<Rightarrow> nat option \<Rightarrow> 32 word \<Rightarrow> bool \<Rightarrow> WORLD" where
  "aiObjectAddExpectedDamage w psObject dmg isDirect =
     (case psObject of
        None \<Rightarrow> w
      | Some obj \<Rightarrow>
          w\<lparr>objects := (objects w)
                (obj := (objects w obj)\<lparr>expectedDamage := expectedDamage (objects w obj) + dmg\<rparr>)\<rparr>)"

definition setProjectileDestination :: "WORLD \<Rightarrow> PROJECTILE \<Rightarrow> nat option \<Rightarrow> WORLD \<times> PROJECTILE" where
  "setProjectileDestination w psProj psObj =
     (let bDirect = proj_Direct (psWStats psProj);
          w1 = aiObjectAddExpectedDamage w (psDest psProj) (- expectedDamageCaused psProj) bDirect;
          psProj' = psProj\<lparr>psDest := psObj\<rparr>;
          w2 = aiObjectAddExpectedDamage w1 (psDest psProj') (expectedDamageCaused psProj') bDirect
      in (w2, psProj'))"

text \<open>
  \<open>proj_SendProjectileAngledInternal\<close>.  The weapon is passed as its entry \<open>asWeaponStats[nStat]\<close>,
  \<open>None\<close> when \<open>nStat\<close> is out of range (the first \<open>ASSERT_OR_RETURN\<close>).  The result is the new
  world and the projectile (\<open>None\<close> for \<open>nullptr\<close>), or \<open>None\<close> where the solver traps.  The fields
  that the constructor and this function leave unset are zero.  The projectile is not yet in
  storage: \<open>globalProjectileStorage.emplace\<close> is done by the registry below.
\<close>

definition proj_SendProjectileAngledInternal ::
  "ENV \<Rightarrow> WORLD \<Rightarrow> WEAPON_STATS option \<Rightarrow> ATTACKER option \<Rightarrow> nat \<Rightarrow> Vector3i \<Rightarrow> nat option
     \<Rightarrow> int \<Rightarrow> int \<Rightarrow> 32 word \<Rightarrow> (WORLD \<times> PROJECTILE option) option" where
  "proj_SendProjectileAngledInternal env w psStatsOpt psAttacker plr target psTarget weapon_slot
      min_angle fireTime =
     (case psStatsOpt of
        None \<Rightarrow> Some (w, None)
      | Some psStats \<Rightarrow>
        if (case psTarget of None \<Rightarrow> False | Some tg \<Rightarrow> died (objects w tg) \<noteq> 0)
        then Some (w, None)
        else
          let inc = projectileTrackerIDIncrement w + 1;
              w1 = w\<lparr>projectileTrackerIDIncrement := inc\<rparr>;
              (src0, w2) =
                (case psAttacker of
                   None \<Rightarrow> (target, w1)
                 | Some (AttackerObject a) \<Rightarrow>
                     if otype (objects w1 a) = OBJ_DROID \<and> weapon_slot \<ge> 0 then
                       (calcMuzzleLocation env (objects w1 a) weapon_slot,
                        w1\<lparr>objects := (objects w1)
                              (a := updateVtolAttackRun env (objects w1 a) weapon_slot)\<rparr>)
                     else if otype (objects w1 a) = OBJ_STRUCTURE \<and> weapon_slot \<ge> 0 then
                       (calcMuzzleLocation env (objects w1 a) weapon_slot, w1)
                     else (pos (objects w1 a), w1)
                 | Some (AttackerProjectile old) \<Rightarrow> (pos old, w1));
              proj0 = \<lparr>otype = OBJ_PROJECTILE, obj_id = ProjectileTrackerID + inc, pos = src0,
                        rot = zeroRotation, player = plr, born = 0, died = 0, time = 0,
                        state = PROJ_INFLIGHT, psWStats = psStats, psSource = None, psDest = None,
                        psDamaged = [], src = src0, dst = target, vXY = 0, vZ = 0,
                        prevSpacetime = \<lparr>st_time = 0, st_pos = zeroVector, st_rot = zeroRotation\<rparr>,
                        expectedDamageCaused = objGuessFutureDamage env w2 psStats plr psTarget,
                        partVisible = 0\<rparr>;
              (w3, proj1) = setProjectileDestination w2 proj0 psTarget;
              proj2 =
                (case psAttacker of
                   Some (AttackerProjectile old) \<Rightarrow>
                     proj1\<lparr>born := born old, src := src old,
                           prevSpacetime := (prevSpacetime proj1)
                             \<lparr>st_time := (if time old = gameTime w3 then time old - 1 else time old)\<rparr>,
                           time := gameTime w3, psSource := psSource old,
                           psDamaged := psDamaged old\<rparr>
                 | Some (AttackerObject a) \<Rightarrow>
                     proj1\<lparr>born := fireTime,
                           prevSpacetime := (prevSpacetime proj1)\<lparr>st_time := fireTime\<rparr>,
                           time := fireTime, psSource := Some a\<rparr>
                 | None \<Rightarrow>
                     proj1\<lparr>born := fireTime,
                           prevSpacetime := (prevSpacetime proj1)\<lparr>st_time := fireTime\<rparr>,
                           time := fireTime, psSource := None\<rparr>);
              (w4, proj3) =
                (case psTarget of
                   Some tg \<Rightarrow>
                     let maxHeight = establishTargetHeight env w3 (objects w3 tg);
                         minHeight = min (max (i32 (maxHeight + 2 * LINE_OF_FIRE_MINIMUM env
                                        - areaOfFire env w3 psAttacker tg weapon_slot)) 0) maxHeight;
                         (r, seed') = gameRand env (gameRandState w3) (max (i32 (maxHeight - minHeight)) 1)
                     in (w3\<lparr>gameRandState := seed'\<rparr>,
                         proj2\<lparr>dst := (dst proj2)\<lparr>vec_z := i32 (vec_z (pos (objects w3 tg)) + minHeight + r)\<rparr>,
                               partVisible := i32 (maxHeight - minHeight)\<rparr>)
                 | None \<Rightarrow>
                     (w3, proj2\<lparr>dst := (dst proj2)\<lparr>vec_z := i32 (vec_z target + LINE_OF_FIRE_MINIMUM env)\<rparr>\<rparr>));
              deltaPos = vec_sub (dst proj3) (src proj3);
              dir = iAtan2 env (vec_x deltaPos) (vec_y deltaPos);
              dist = iHypot env (vec_x deltaPos) (vec_y deltaPos);
              solved =
                (if proj_Direct psStats then
                   Some (w4, proj3\<lparr>rot := \<lparr>direction = dir, pitch = iAtan2 env (vec_z deltaPos) dist,
                                              roll = 0\<rparr>\<rparr>)
                 else
                   (case projCalcIndirectVelocities env (gameRandState w4) dist (vec_z deltaPos)
                           (sint (flightSpeed psStats)) min_angle of
                      None \<Rightarrow> None
                    | Some ((t, vx, vz), seed') \<Rightarrow>
                        Some (w4\<lparr>gameRandState := seed'\<rparr>,
                              proj3\<lparr>vXY := vx, vZ := vz,
                                    rot := \<lparr>direction = dir, pitch = iAtan2 env vz vx, roll = 0\<rparr>\<rparr>)))
          in (case solved of
                None \<Rightarrow> None
              | Some (w5, proj4) \<Rightarrow>
                  let proj5 = proj4\<lparr>state := PROJ_INFLIGHT\<rparr>;
                      w6 =
                        (case psAttacker of
                           Some (AttackerObject a) \<Rightarrow>
                             if weapon_slot \<ge> 0
                                \<and> (otype (objects w5 a) = OBJ_DROID \<or> otype (objects w5 a) = OBJ_STRUCTURE)
                             then w5\<lparr>objects := (objects w5)
                                    (a := setWeaponPitch env (objects w5 a) weapon_slot
                                            (pitch (rot proj5)) psStats)\<rparr>
                             else w5
                         | _ \<Rightarrow> w5);
                      w7 =
                        (if psAttacker \<noteq> None \<and> \<not> proj_Direct psStats then
                           counterBatteryFire env w6
                             (case psAttacker of Some (AttackerObject a) \<Rightarrow> Some a | _ \<Rightarrow> None)
                             psTarget
                         else w6)
                  in Some (w7, Some proj5)))"

definition proj_SendProjectileInternal ::
  "ENV \<Rightarrow> WORLD \<Rightarrow> WEAPON_STATS option \<Rightarrow> ATTACKER option \<Rightarrow> nat \<Rightarrow> Vector3i \<Rightarrow> nat option
     \<Rightarrow> int \<Rightarrow> (WORLD \<times> PROJECTILE option) option" where
  "proj_SendProjectileInternal env w psStatsOpt psAttacker plr target psTarget weapon_slot =
     proj_SendProjectileAngledInternal env w psStatsOpt psAttacker plr target psTarget weapon_slot
       0 (gameTime w - 1)"

section \<open>Flight\<close>

definition HOMINGINDIRECT_HEIGHT_MIN :: int where
  "HOMINGINDIRECT_HEIGHT_MIN = 200"

definition HOMINGINDIRECT_HEIGHT_MAX :: int where
  "HOMINGINDIRECT_HEIGHT_MAX = 450"

definition LAS_SAT_DELAY :: int where
  "LAS_SAT_DELAY = 4"

definition PROJ_NEIGHBOUR_RANGE :: "ENV \<Rightarrow> int" where
  "PROJ_NEIGHBOUR_RANGE env = TILE_UNITS env * 4"

definition getSpacetime :: "PROJECTILE \<Rightarrow> Spacetime" where
  "getSpacetime psProj = \<lparr>st_time = time psProj, st_pos = pos psProj, st_rot = rot psProj\<rparr>"

definition setSpacetime :: "PROJECTILE \<Rightarrow> Spacetime \<Rightarrow> PROJECTILE" where
  "setSpacetime psProj st = psProj\<lparr>pos := st_pos st, rot := st_rot st, time := st_time st\<rparr>"

definition homingStep :: "ENV \<Rightarrow> PROJECTILE \<Rightarrow> Vector3i \<Rightarrow> int \<Rightarrow> Vector3i" where
  "homingStep env psProj delta targetDistance =
     quantiseFraction env (vec_scale delta (sint (flightSpeed (psWStats psProj))))
       (i32 (GAME_TICKS_PER_SEC env * targetDistance)) (time psProj) (st_time (prevSpacetime psProj))"

text \<open>
  The loop of the terrain-avoiding missile: \<open>for (tries = 0; tries < 10 && map_LineIntersect(...)
  < targetDistance - 1u; ++tries)\<close>.  The first argument counts the tries that are left; the
  state is the projectile (whose \<open>dst\<close> the loop raises), \<open>delta\<close>, \<open>targetDistance\<close> and \<open>step\<close>.
\<close>

fun avoidTerrain ::
  "ENV \<Rightarrow> nat \<Rightarrow> PROJECTILE \<times> Vector3i \<times> int \<times> Vector3i \<Rightarrow> PROJECTILE \<times> Vector3i \<times> int \<times> Vector3i" where
  "avoidTerrain env 0 s = s"
| "avoidTerrain env (Suc n) (psProj, delta, targetDistance, step) =
     (if uint (map_LineIntersect env (st_pos (prevSpacetime psProj)) (vec_add (pos psProj) step)
                 (word_of_int (iHypot3 env step))) < u32 (targetDistance - 1)
      then
        let d = vec_sub (dst psProj) (pos psProj);
            psProj' = psProj\<lparr>dst := (dst psProj)
                        \<lparr>vec_z := i32 (vec_z (dst psProj) + iHypot env (vec_x d) (vec_y d))\<rparr>\<rparr>;
            delta' = vec_sub (dst psProj') (pos psProj');
            targetDistance' = max (iHypot3 env delta') 1;
            step' = homingStep env psProj' delta' targetDistance'
        in avoidTerrain env n (psProj', delta', targetDistance', step')
      else (psProj, delta, targetDistance, step))"

text \<open>
  The homing models first re-aim at the destination object, \<open>if (psProj->psDest != nullptr)\<close>.
  They divide by the weapon's \<open>flightSpeed\<close> when the target is a droid: a speed of 0 traps,
  which is \<open>None\<close>.
\<close>

definition homingAim :: "ENV \<Rightarrow> WORLD \<Rightarrow> PROJECTILE \<Rightarrow> PROJECTILE option" where
  "homingAim env w psProj =
     (let psStats = psWStats psProj;
          T = GAME_TICKS_PER_SEC env
      in case psDest psProj of
           None \<Rightarrow> Some psProj
         | Some d \<Rightarrow>
             let dest = objects w d;
                 h = establishTargetHeight env w dest;
                 dst1 = (if movementModel psStats = MM_HOMINGDIRECT
                         then vec_add (pos dest)
                                \<lparr>vec_x = 0, vec_y = 0, vec_z = i32 (h - partVisible psProj sdiv 2)\<rparr>
                         else vec_add (pos dest) \<lparr>vec_x = 0, vec_y = 0, vec_z = h sdiv 2\<rparr>)
             in if otype dest = OBJ_DROID \<and> flightSpeed psStats = 0 then None
                else
                  let dst2 =
                        (if otype dest = OBJ_DROID then
                           let delta = vec_sub dst1 (pos psProj);
                               flightTime = i32 (u32 (iHypot env (vec_x delta) (vec_y delta) * T)
                                                   div uint (flightSpeed psStats));
                               pr = iSinCosR env (sMove_moveDir dest)
                                      (i32 (i32 (min (sMove_speed dest)
                                                   (i32 (u32 (uint (flightSpeed psStats) * 3) div 4))
                                                 * flightTime)
                                            sdiv T))
                           in vec_add dst1 \<lparr>vec_x = fst pr, vec_y = snd pr, vec_z = 0\<rparr>
                         else dst1)
                  in Some (psProj\<lparr>dst := dst2
                             \<lparr>vec_x := clip (vec_x dst2) 0 (world_coord_mapWidth env - 1),
                              vec_y := clip (vec_y dst2) 0 (world_coord_mapHeight env - 1)\<rparr>\<rparr>))"

text \<open>The altitude controller of the terrain-avoiding missile, \<open>if (movementModel == MM_HOMINGINDIRECT)\<close>.\<close>

definition homingAltitude :: "ENV \<Rightarrow> PROJECTILE \<Rightarrow> int \<Rightarrow> PROJECTILE" where
  "homingAltitude env p1 deltaProjectileTime =
     (let psStats = psWStats p1;
          T = GAME_TICKS_PER_SEC env;
          p1' = (if psDest p1 = None
                 then p1\<lparr>dst := (dst p1)\<lparr>vec_z := i32 (map_Height env (vec_x (pos p1)) (vec_y (pos p1)) - 1)\<rparr>\<rparr>
                 else p1);
          d = vec_sub (dst p1') (pos p1');
          horizontalTargetDistance = iHypot env (vec_x d) (vec_y d);
          ar = iSinCosR env (iAtan2 env (vec_x d) (vec_y d))
                 (i32 (u32 (uint (flightSpeed psStats) * 2 * deltaProjectileTime) div u32 T));
          terrainHeight = max (map_Height env (vec_x (pos p1')) (vec_y (pos p1')))
                              (map_Height env (i32 (vec_x (pos p1') + fst ar)) (i32 (vec_y (pos p1') + snd ar)));
          desiredMinHeight = i32 (terrainHeight + min (horizontalTargetDistance sdiv 4) HOMINGINDIRECT_HEIGHT_MIN);
          desiredMaxHeight = max (vec_z (dst p1')) (i32 (terrainHeight + HOMINGINDIRECT_HEIGHT_MAX));
          heightError = i32 (vec_z (pos p1') - clip (vec_z (pos p1')) desiredMinHeight desiredMaxHeight)
      in p1'\<lparr>dst := (dst p1')\<lparr>vec_z := i32 (vec_z (dst p1')
             - i32 (horizontalTargetDistance * heightError * 2) sdiv HOMINGINDIRECT_HEIGHT_MIN)\<rparr>\<rparr>)"

text \<open>The rest of the homing case: the step of the tick, retried while it would hit the terrain.\<close>

definition homingFly :: "ENV \<Rightarrow> PROJECTILE \<Rightarrow> PROJECTILE" where
  "homingFly env p2 =
     (let psStats = psWStats p2;
          delta = vec_sub (dst p2) (pos p2);
          targetDistance = max (iHypot3 env delta) 1;
          p3 = (if psDest p2 = None \<and> targetDistance < 10000 \<and> movementModel psStats = MM_HOMINGDIRECT
                then p2\<lparr>dst := vec_add (pos p2) (vec_scale delta 10)\<rparr> else p2);
          step = homingStep env p3 delta targetDistance;
          r = (if movementModel psStats = MM_HOMINGINDIRECT \<and> psDest p3 \<noteq> None
               then avoidTerrain env 10 (p3, delta, targetDistance, step)
               else (p3, delta, targetDistance, step));
          p4 = fst r; delta' = fst (snd r); targetDistance' = fst (snd (snd r)); step' = snd (snd (snd r))
      in p4\<lparr>pos := vec_add (pos p4) step',
            rot := (rot p4)\<lparr>direction := iAtan2 env (vec_x delta') (vec_y delta'),
                            pitch := iAtan2 env (vec_z delta') targetDistance'\<rparr>\<rparr>)"

text \<open>
  The movement switch of \<open>proj_InFlightFunc\<close>: the moved projectile and \<open>currentDistance\<close>.
  \<open>flightSpeed\<close> is unsigned (the source casts it, \<open>int32_t(psStats->flightSpeed)\<close>, where it
  wants a signed value), so \<open>timeSoFar * psStats->flightSpeed / GAME_TICKS_PER_SEC\<close> is an
  unsigned 32-bit product and quotient, stored in the \<open>int32_t\<close> \<open>currentDistance\<close>; \<open>vXY\<close> and
  \<open>vZ\<close> are \<open>int32_t\<close>, and the ballistic case computes in signed 32 bits.
\<close>

definition projMovement :: "ENV \<Rightarrow> WORLD \<Rightarrow> PROJECTILE \<Rightarrow> int \<Rightarrow> int \<Rightarrow> (PROJECTILE \<times> int) option" where
  "projMovement env w psProj timeSoFar deltaProjectileTime =
     (let psStats = psWStats psProj;
          T = GAME_TICKS_PER_SEC env;
          g = ACC_GRAVITY env
      in case movementModel psStats of
           MM_DIRECT \<Rightarrow>
             let delta0 = vec_sub (dst psProj) (src psProj);
                 delta = (if weaponSubClass psStats = WSC_LAS_SAT then delta0\<lparr>vec_z := 0\<rparr> else delta0);
                 targetDistance = max (iHypot env (vec_x delta) (vec_y delta)) 1;
                 currentDistance = i32 (u32 (timeSoFar * uint (flightSpeed psStats)) div u32 T)
             in Some (psProj\<lparr>pos := vec_add (src psProj) (vec_muldiv delta currentDistance targetDistance)\<rparr>,
                      currentDistance)
         | MM_INDIRECT \<Rightarrow>
             let delta0 = vec_sub (dst psProj) (src psProj);
                 delta = delta0\<lparr>vec_z :=
                           i32 (i32 ((vZ psProj - i32 (i32 (timeSoFar * g) sdiv i32 (T * 2))) * timeSoFar) sdiv T)\<rparr>;
                 targetDistance = max (iHypot env (vec_x delta) (vec_y delta)) 1;
                 currentDistance = i32 (i32 (timeSoFar * vXY psProj) sdiv T);
                 newPos = (vec_add (src psProj) (vec_muldiv delta currentDistance targetDistance))
                            \<lparr>vec_z := i32 (vec_z (src psProj) + vec_z delta)\<rparr>
             in Some (psProj\<lparr>pos := newPos,
                        rot := (rot psProj)\<lparr>pitch := iAtan2 env (i32 (vZ psProj - i32 (i32 (timeSoFar * g) sdiv T)))
                                                     (vXY psProj)\<rparr>\<rparr>,
                      currentDistance)
         | _ \<Rightarrow>
             (case homingAim env w psProj of
                None \<Rightarrow> None
              | Some p1 \<Rightarrow>
                  let p2 = (if movementModel psStats = MM_HOMINGINDIRECT
                            then homingAltitude env p1 deltaProjectileTime else p1)
                  in Some (homingFly env p2, i32 (u32 (timeSoFar * uint (flightSpeed psStats)) div u32 T))))"

text \<open>
  What the movement switch leaves alone: it writes \<open>pos\<close>, \<open>rot\<close> and \<open>dst\<close> only.
\<close>

definition sameIdentity :: "PROJECTILE \<Rightarrow> PROJECTILE \<Rightarrow> bool" where
  "sameIdentity p q \<longleftrightarrow> psDamaged q = psDamaged p \<and> psDest q = psDest p \<and> psSource q = psSource p
     \<and> player q = player p \<and> psWStats q = psWStats p \<and> state q = state p \<and> born q = born p
     \<and> expectedDamageCaused q = expectedDamageCaused p \<and> src q = src p \<and> obj_id q = obj_id p
     \<and> died q = died p \<and> time q = time p \<and> prevSpacetime q = prevSpacetime p"

text \<open>
  One turn of the loop over the grid list in \<open>proj_InFlightFunc\<close>: the chain of \<open>continue\<close>s, then
  the geometric test.  The state is \<open>closestCollisionSpacetime\<close> and \<open>closestCollisionObject\<close>.
\<close>

definition scanStep ::
  "ENV \<Rightarrow> WORLD \<Rightarrow> PROJECTILE \<Rightarrow> Spacetime \<times> nat option \<Rightarrow> nat \<Rightarrow> Spacetime \<times> nat option" where
  "scanStep env w psProj closest ptr =
     (let psTempObj = objects w ptr;
          psStats = psWStats psProj
      in if ptr \<in> set (psDamaged psProj) then closest
         else if died psTempObj \<noteq> 0 then closest
         else if otype psTempObj = OBJ_FEATURE \<and> \<not> damageable psTempObj then closest
         else if aiCheckAlliances env (player psTempObj) (player psProj) \<and> Some ptr \<noteq> psDest psProj
           then closest
         else if \<not> shootOnGround psStats
                 \<and> (otype psTempObj = OBJ_STRUCTURE \<or> otype psTempObj = OBJ_FEATURE
                      \<or> (otype psTempObj = OBJ_DROID \<and> \<not> isFlying env psTempObj))
           then closest
         else
           let psTempObjPrevPos = (if otype psTempObj = OBJ_DROID
                                   then st_pos (droid_prevSpacetime psTempObj) else pos psTempObj);
               diff = vec_sub (pos psProj) (pos psTempObj);
               prevDiff = vec_sub (st_pos (prevSpacetime psProj)) psTempObjPrevPos;
               targetHeight = establishTargetHeight env w psTempObj;
               targetShape = establishTargetShape env psTempObj;
               collision = collisionXYZ prevDiff diff targetShape targetHeight;
               collisionTime = st_time (prevSpacetime psProj)
                  + ((time psProj - st_time (prevSpacetime psProj)) * word_of_int collision) div 1024
           in if collision \<ge> 0 \<and> collisionTime < st_time (fst closest)
              then (interpolateObjectSpacetime env psProj collisionTime, Some ptr)
              else closest)"

definition collisionScan ::
  "ENV \<Rightarrow> WORLD \<Rightarrow> PROJECTILE \<Rightarrow> nat list \<Rightarrow> Spacetime \<times> nat option \<Rightarrow> Spacetime \<times> nat option" where
  "collisionScan env w psProj gridList closest = foldl (scanStep env w psProj) closest gridList"

text \<open>
  The conditions under which the scan passes over an object before it looks at its geometry,
  the anti-air rule apart: the object was already damaged by this projectile, it is dead, it
  is a feature that cannot be damaged, or it is allied and not the destination.
\<close>

definition scanSkipped :: "ENV \<Rightarrow> WORLD \<Rightarrow> PROJECTILE \<Rightarrow> nat \<Rightarrow> bool" where
  "scanSkipped env w psProj ptr \<longleftrightarrow>
     ptr \<in> set (psDamaged psProj) \<or> died (objects w ptr) \<noteq> 0
     \<or> (otype (objects w ptr) = OBJ_FEATURE \<and> \<not> damageable (objects w ptr))
     \<or> (aiCheckAlliances env (player (objects w ptr)) (player psProj) \<and> Some ptr \<noteq> psDest psProj)"

text \<open>
  The search of \<open>proj_InFlightFunc\<close> for the earliest collision of the tick: the scan of the
  nearby objects, then the terrain.  A time of \<open>0xFFFFFFFF\<close> means that nothing was hit.
\<close>

definition closestCollision :: "ENV \<Rightarrow> WORLD \<Rightarrow> PROJECTILE \<Rightarrow> Spacetime \<times> nat option" where
  "closestCollision env w p =
     (let start = (\<lparr>st_time = 0xFFFFFFFF, st_pos = zeroVector, st_rot = zeroRotation\<rparr>, None);
          gridList = gridStartIterate env w (vec_x (pos p)) (vec_y (pos p)) (PROJ_NEIGHBOUR_RANGE env);
          scanned = collisionScan env w p gridList start;
          terrainIntersectTime = map_LineIntersect env (st_pos (prevSpacetime p)) (pos p)
                                   (time p - st_time (prevSpacetime p))
      in if terrainIntersectTime \<noteq> 0xFFFFFFFF
            \<and> st_time (prevSpacetime p) + terrainIntersectTime < st_time (fst scanned)
         then (interpolateObjectSpacetime env p (st_time (prevSpacetime p) + terrainIntersectTime), None)
         else scanned)"

text \<open>
  The branch "We hit!" of \<open>proj_InFlightFunc\<close>.  \<open>static_cast<int>(1.25 * range)\<close> is exact in
  double precision and truncates: \<open>(5 * range) sdiv 4\<close>.  For the child, \<open>asWeap.nStat\<close> is the
  index of the parent's own stats entry, so the lookup returns \<open>psWStats\<close> of the parent.
\<close>

definition registerHit ::
  "ENV \<Rightarrow> WORLD \<Rightarrow> PROJECTILE \<Rightarrow> int \<Rightarrow> Spacetime \<Rightarrow> nat option
     \<Rightarrow> (WORLD \<times> PROJECTILE \<times> PROJECTILE option) option" where
  "registerHit env w p currentDistance closestCollisionSpacetime closestCollisionObject =
     (let psStats = psWStats p;
          p1 = setSpacetime p closestCollisionSpacetime;
          p2 = p1\<lparr>time := max (time p1) (gameTime w - deltaGameTime w + 1)\<rparr>;
          p3 = (if time p2 = st_time (prevSpacetime p2)
                then p2\<lparr>prevSpacetime := (prevSpacetime p2)\<lparr>st_time := st_time (prevSpacetime p2) - 1\<rparr>\<rparr>
                else p2);
          (w1, p4) = setProjectileDestination w p3 closestCollisionObject
      in case closestCollisionObject of
           None \<Rightarrow> Some (w1, p4\<lparr>state := PROJ_IMPACT\<rparr>, None)
         | Some obj \<Rightarrow>
             if otype (objects w1 obj) = OBJ_DROID \<and> penetrate psStats
                \<and> currentDistance < (5 * proj_GetLongRange env psStats (player p4)) sdiv 4
             then
               let p5 = p4\<lparr>psDamaged := psDamaged p4 @ [obj]\<rparr>
               in (case proj_SendProjectileInternal env w1 (Some (psWStats p5))
                          (Some (AttackerProjectile p5)) (player p5) (dst p5) None (- 1) of
                     None \<Rightarrow> None
                   | Some (w2, spawnedProjectile) \<Rightarrow>
                       Some (w2, p5\<lparr>state := PROJ_IMPACT\<rparr>, spawnedProjectile))
             else Some (w1, p4\<lparr>state := PROJ_IMPACT\<rparr>, None))"

text \<open>
  \<open>proj_InFlightFunc\<close>: the new world, the projectile and the spawned projectile (\<open>None\<close> for
  \<open>nullptr\<close>); \<open>None\<close> where the C++ traps.
\<close>

definition proj_InFlightFunc ::
  "ENV \<Rightarrow> WORLD \<Rightarrow> PROJECTILE \<Rightarrow> (WORLD \<times> PROJECTILE \<times> PROJECTILE option) option" where
  "proj_InFlightFunc env w psProj0 =
     (let timeSoFar = sint (gameTime w - born psProj0);
          psProj = psProj0\<lparr>time := gameTime w\<rparr>;
          deltaProjectileTime = sint (time psProj - st_time (prevSpacetime psProj));
          psStats = psWStats psProj
      in if bMultiPlayer w \<and> weaponSubClass psStats = WSC_LAS_SAT
            \<and> gameTime w - born psProj0 < word_of_int (LAS_SAT_DELAY * GAME_TICKS_PER_SEC env)
         then Some (w, psProj, None)
         else
           (case projMovement env w psProj timeSoFar deltaProjectileTime of
              None \<Rightarrow> None
            | Some (p, currentDistance) \<Rightarrow>
                let (closestCollisionSpacetime, closestCollisionObject) = closestCollision env w p
                in if st_time closestCollisionSpacetime \<noteq> 0xFFFFFFFF then
                     registerHit env w p currentDistance closestCollisionSpacetime closestCollisionObject
                   else if i32 (currentDistance * 100)
                            \<ge> i32 (proj_GetLongRange env psStats (player p) * distanceExtensionFactor psStats)
                   then
                     let (w1, p1) = setProjectileDestination w (p\<lparr>state := PROJ_IMPACT\<rparr>) None
                     in Some (w1, p1, None)
                   else Some (w, p, None)))"

text \<open>
  Two names for the first steps of \<open>proj_InFlightFunc\<close>: the guard that keeps a Las-Sat shot inert
  for \<open>LAS_SAT_DELAY\<close> seconds in multiplayer, and the movement switch applied to the projectile
  of the call.
\<close>

definition lasSatCharging :: "ENV \<Rightarrow> WORLD \<Rightarrow> PROJECTILE \<Rightarrow> bool" where
  "lasSatCharging env w psProj \<longleftrightarrow>
     bMultiPlayer w \<and> weaponSubClass (psWStats psProj) = WSC_LAS_SAT
     \<and> gameTime w - born psProj < word_of_int (LAS_SAT_DELAY * GAME_TICKS_PER_SEC env)"

definition inFlightMovement :: "ENV \<Rightarrow> WORLD \<Rightarrow> PROJECTILE \<Rightarrow> (PROJECTILE \<times> int) option" where
  "inFlightMovement env w psProj =
     projMovement env w (psProj\<lparr>time := gameTime w\<rparr>) (sint (gameTime w - born psProj))
       (sint (gameTime w - st_time (prevSpacetime psProj)))"

section \<open>Damage dispatch and experience\<close>

text \<open>
  \<open>calcDamage\<close>.  The tables \<open>asStructStrengthModifier\<close>, \<open>asWeaponModifier\<close> and
  \<open>asWeaponModifierBody\<close> are read at the target's structure strength, propulsion and body.
  The C++ computes in \<open>UDWORD\<close>, unsigned 32 bits: a modifier below 100 percent makes a
  negative term that is added modulo \<open>2^32\<close>.
\<close>

definition calcDamage :: "ENV \<Rightarrow> int \<Rightarrow> nat \<Rightarrow> BASE_OBJECT \<Rightarrow> int" where
  "calcDamage env baseDamage weaponEff psTarget =
     (if u32 baseDamage = 0 then 0
      else
        let damage0 = u32 (baseDamage * 100);
            damage1 =
              (if otype psTarget = OBJ_STRUCTURE then
                 u32 (damage0 + baseDamage * (structStrengthModifier env weaponEff psTarget - 100))
               else if otype psTarget = OBJ_DROID then
                 u32 (damage0 + baseDamage * (weaponModifier env weaponEff psTarget - 100)
                         + baseDamage * (weaponModifierBody env weaponEff psTarget - 100))
               else damage0)
        in max (damage1 div 100) 1)"

definition objectDamageDispatch :: "ENV \<Rightarrow> WORLD \<Rightarrow> DAMAGE \<Rightarrow> WORLD \<times> int" where
  "objectDamageDispatch env w psDamage =
     (let d = dmg_psDest psDamage;
          target = objects w d
      in case otype target of
           OBJ_DROID \<Rightarrow>
             (let (t', rel) = droidDamage env target psDamage in (w\<lparr>objects := (objects w)(d := t')\<rparr>, rel))
         | OBJ_STRUCTURE \<Rightarrow>
             (let (t', rel) = structureDamage env target psDamage in (w\<lparr>objects := (objects w)(d := t')\<rparr>, rel))
         | OBJ_FEATURE \<Rightarrow>
             (let (t', rel) = featureDamage env target psDamage in (w\<lparr>objects := (objects w)(d := t')\<rparr>, rel))
         | OBJ_PROJECTILE \<Rightarrow> (w, 0))"

text \<open>\<open>isFeature\<close> (basedef.h) is false on \<open>nullptr\<close>.\<close>

definition isFeature :: "WORLD \<Rightarrow> nat option \<Rightarrow> bool" where
  "isFeature w psObject = (case psObject of None \<Rightarrow> False | Some obj \<Rightarrow> otype (objects w obj) = OBJ_FEATURE)"

text \<open>
  \<open>isFriendlyFire\<close> reads \<open>psDamage->psProjectile->psSource->player\<close>; its only caller has checked
  that the source is not \<open>nullptr\<close>, and the model answers \<open>False\<close> for one that is.
\<close>

definition isFriendlyFire :: "WORLD \<Rightarrow> DAMAGE \<Rightarrow> bool" where
  "isFriendlyFire w psDamage =
     (case psDest (psProjectile psDamage) of
        None \<Rightarrow> False
      | Some d \<Rightarrow>
          (case psSource (psProjectile psDamage) of
             None \<Rightarrow> False
           | Some s \<Rightarrow> player (objects w s) = player (objects w d)))"

definition shouldIncreaseExperience :: "WORLD \<Rightarrow> DAMAGE \<Rightarrow> bool" where
  "shouldIncreaseExperience w psDamage \<longleftrightarrow>
     psSource (psProjectile psDamage) \<noteq> None
     \<and> \<not> isFeature w (psDest (psProjectile psDamage))
     \<and> \<not> isFriendlyFire w psDamage"

definition qualityFactor :: "ENV \<Rightarrow> BASE_OBJECT \<Rightarrow> BASE_OBJECT \<Rightarrow> int" where
  "qualityFactor env psAttacker psVictim =
     (let attackerPower = calcDroidPower env psAttacker;
          attackerPoints = calcDroidPoints env psAttacker
      in if attackerPower = 0 \<or> attackerPoints = 0 then 65536 sdiv 2
         else
           let powerRatio = (65536 * calcDroidPower env psVictim) sdiv attackerPower;
               pointsRatio = (65536 * calcDroidPoints env psVictim) sdiv attackerPoints
           in (clip powerRatio (65536 sdiv 2) (65536 * 2) + clip pointsRatio (65536 sdiv 2) (65536 * 2)) sdiv 2)"

text \<open>
  Modelled from the spec: \<open>droidIncreaseExperience\<close> (droid.cpp, not among the sources), which
  "increases that source's experience": it adds the increment to the droid's experience.
\<close>

definition droidIncreaseExperience :: "WORLD \<Rightarrow> nat \<Rightarrow> int \<Rightarrow> WORLD" where
  "droidIncreaseExperience w psDroid experienceInc =
     w\<lparr>objects := (objects w)
          (psDroid := (objects w psDroid)\<lparr>experience := experience (objects w psDroid) + experienceInc\<rparr>)\<rparr>"

text \<open>
  Modelled from the spec: \<open>cmdDroidUpdateExperience\<close> (cmddroid.cpp, not among the sources): the
  commander of the droid's group, if it has one, gains the same experience.
\<close>

definition cmdDroidUpdateExperience :: "WORLD \<Rightarrow> nat \<Rightarrow> int \<Rightarrow> WORLD" where
  "cmdDroidUpdateExperience w psShooter experienceInc =
     (case psCommander (objects w psShooter) of
        None \<Rightarrow> w
      | Some c \<Rightarrow> droidIncreaseExperience w c experienceInc)"

definition getDesignatorAttackingObject :: "ENV \<Rightarrow> WORLD \<Rightarrow> nat \<Rightarrow> nat option \<Rightarrow> nat option" where
  "getDesignatorAttackingObject env w plr target =
     (case cmdDroidGetDesignator env w plr of
        None \<Rightarrow> None
      | Some c \<Rightarrow> if designatorAttacks env (objects w c) target then Some c else None)"

text \<open>
  \<open>proj_UpdateExperience\<close>.  \<open>experienceInc\<close> is a \<open>uint32_t\<close>: a negative amount is a huge one and
  fails the range assertion, as an amount of \<open>(int)(2.1 * 65536) = 137625\<close> or more does.
\<close>

definition proj_UpdateExperience :: "ENV \<Rightarrow> WORLD \<Rightarrow> PROJECTILE \<Rightarrow> int \<Rightarrow> WORLD" where
  "proj_UpdateExperience env w psObj experienceInc0 =
     (case psSource psObj of
        None \<Rightarrow> w
      | Some s \<Rightarrow>
          if otype (objects w s) = OBJ_DROID then
            let experienceInc =
                  (case psDest psObj of
                     None \<Rightarrow> experienceInc0
                   | Some d \<Rightarrow>
                       if otype (objects w d) = OBJ_DROID \<and> bMultiPlayer w
                       then (experienceInc0 * qualityFactor env (objects w s) (objects w d)) sdiv 65536
                       else experienceInc0)
            in if \<not> (0 \<le> experienceInc \<and> experienceInc < 137625) then w
               else
                 let w1 = droidIncreaseExperience w s experienceInc;
                     w2 = cmdDroidUpdateExperience w1 s experienceInc
                 in (case orderStateObj_FIRESUPPORT env (objects w2 s) of
                       None \<Rightarrow> w2
                     | Some psSensor \<Rightarrow>
                         if otype (objects w2 psSensor) = OBJ_DROID
                         then droidIncreaseExperience w2 psSensor experienceInc else w2)
          else if otype (objects w s) = OBJ_STRUCTURE then
            (if \<not> (0 \<le> experienceInc0 \<and> experienceInc0 < 137625) then w
             else
               (case getDesignatorAttackingObject env w (player (objects w s)) (psDest psObj) of
                  None \<Rightarrow> w
                | Some psDroid \<Rightarrow> droidIncreaseExperience w psDroid experienceInc0))
          else w)"

definition incKills :: "WORLD \<Rightarrow> nat \<Rightarrow> WORLD" where
  "incKills w psDroid =
     w\<lparr>objects := (objects w)(psDroid := (objects w psDroid)\<lparr>kills := kills (objects w psDroid) + 1\<rparr>)\<rparr>"

definition updateKills :: "ENV \<Rightarrow> WORLD \<Rightarrow> DAMAGE \<Rightarrow> WORLD" where
  "updateKills env w psDamage =
     (case psSource (psProjectile psDamage) of
        None \<Rightarrow> w
      | Some s \<Rightarrow>
          if otype (objects w s) = OBJ_DROID then
            let w1 = incKills w s
            in (case psCommander (objects w1 s) of None \<Rightarrow> w1 | Some c \<Rightarrow> incKills w1 c)
          else if otype (objects w s) = OBJ_STRUCTURE then
            (case getDesignatorAttackingObject env w (player (objects w s))
                    (psDest (psProjectile psDamage)) of
               None \<Rightarrow> w
             | Some c \<Rightarrow> incKills w c)
          else w)"

definition getExpGain :: "WORLD \<Rightarrow> nat \<Rightarrow> int" where
  "getExpGain w plr = experienceGain w plr"

definition objectDamage :: "ENV \<Rightarrow> WORLD \<Rightarrow> DAMAGE \<Rightarrow> WORLD \<times> int" where
  "objectDamage env w psDamage =
     (let (w1, relativeDamage) = objectDamageDispatch env w psDamage
      in if shouldIncreaseExperience w1 psDamage then
           (case psSource (psProjectile psDamage) of
              None \<Rightarrow> (w1, relativeDamage)
            | Some s \<Rightarrow>
                let w2 = proj_UpdateExperience env w1 (psProjectile psDamage)
                           ((\<bar>relativeDamage\<bar> * getExpGain w1 (player (objects w1 s))) sdiv 100);
                    isTargetDestroyed = relativeDamage < 0
                in (if isTargetDestroyed then updateKills env w2 psDamage else w2, relativeDamage))
         else (w1, relativeDamage))"

section \<open>Impact\<close>

text \<open>
  One turn of the loop of \<open>proj_radiusSweep\<close> over the grid list; \<open>rad\<close> is the radius the sweep
  was started with.
\<close>

definition radiusSweepStep ::
  "ENV \<Rightarrow> PROJECTILE \<Rightarrow> WEAPON_STATS \<Rightarrow> Vector3i \<Rightarrow> bool \<Rightarrow> WORLD \<Rightarrow> nat \<Rightarrow> WORLD" where
  "radiusSweepStep env psObj psStats targetPos empRad w ptr =
     (let psCurr = objects w ptr;
          rad = (if empRad then empRadius (upgrade psStats (player psObj))
                 else upg_radius (upgrade psStats (player psObj)))
      in if died psCurr \<noteq> 0 then w
         else if Some ptr = psDest psObj then w
         else if (case psSource psObj of
                    None \<Rightarrow> False
                  | Some s \<Rightarrow> player (objects w s) = player psCurr \<and> noFriendlyFire psStats)
           then w
         else if otype psCurr = OBJ_PROJECTILE then w
         else
           let bTargetInAir = (otype psCurr = OBJ_DROID \<and> propulsionTravelAir env psCurr
                                 \<and> sMove_Status psCurr \<noteq> MOVEINACTIVE);
               useSphere = (otype psCurr = OBJ_DROID);
               dmgable = (if otype psCurr = OBJ_FEATURE then damageable psCurr else True)
           in if \<not> dmgable then w
              else if \<not> (if bTargetInAir then shootInAir psStats else shootOnGround psStats) then w
              else if useSphere \<and> \<not> Vector3i_InSphere env (pos psCurr) targetPos rad then w
              else
                let dmg = calcDamage env (weaponRadDamage env psStats (player psObj))
                            (weaponEffect psStats) psCurr;
                    sDamage = \<lparr>psProjectile = psObj, dmg_psDest = ptr, damage = dmg,
                                dmg_weaponClass = weaponClass psStats,
                                dmg_weaponSubClass = weaponSubClass psStats,
                                impactTime = time psObj, isDamagePerSecond = False,
                                minDamage = minimumDamage (upgrade psStats (player psObj)),
                                empRadiusHit = empRad\<rparr>
                in fst (objectDamage env w sDamage))"

definition proj_radiusSweep ::
  "ENV \<Rightarrow> WORLD \<Rightarrow> PROJECTILE \<Rightarrow> WEAPON_STATS \<Rightarrow> Vector3i \<Rightarrow> bool \<Rightarrow> WORLD" where
  "proj_radiusSweep env w psObj psStats targetPos empRad =
     (let gridList = gridStartIterate env w (vec_x targetPos) (vec_y targetPos)
                       (if empRad then empRadius (upgrade psStats (player psObj))
                        else upg_radius (upgrade psStats (player psObj)))
      in foldl (radiusSweepStep env psObj psStats targetPos empRad) w gridList)"

text \<open>
  The part of \<open>proj_ImpactFunc\<close> that resolves the hit on the destination: \<open>None\<close> is the early
  return on a feature that cannot be damaged.
\<close>

definition impactHit :: "ENV \<Rightarrow> WORLD \<Rightarrow> PROJECTILE \<Rightarrow> (WORLD \<times> PROJECTILE) option" where
  "impactHit env w psObj =
     (let psStats = psWStats psObj
      in case psDest psObj of
           None \<Rightarrow> Some (w, psObj)
         | Some d \<Rightarrow>
             if otype (objects w d) = OBJ_FEATURE \<and> \<not> damageable (objects w d) then None
             else if proj_Direct psStats \<and> weaponSubClass psStats = WSC_ELECTRONIC
                     \<and> psSource psObj \<noteq> None then
               (case psSource psObj of
                  None \<Rightarrow> Some (w, psObj)
                | Some s \<Rightarrow>
                    let (dest', captured) = electronicDamage env (objects w d)
                           (calcDamage env (weaponDamage env psStats (player psObj))
                              (weaponEffect psStats) (objects w d))
                           (player psObj);
                        w1 = w\<lparr>objects := (objects w)(d := dest')\<rparr>
                    in if captured then
                         (if otype (objects w1 s) = OBJ_DROID then
                            Some (w1\<lparr>objects := (objects w1)
                                   (s := actionDroid_NONE env ((objects w1 s)\<lparr>order_type := DORDER_NONE\<rparr>))\<rparr>,
                                  psObj)
                          else if otype (objects w1 s) = OBJ_STRUCTURE then
                            Some (w1\<lparr>objects := (objects w1)(s := (objects w1 s)\<lparr>psTarget0 := None\<rparr>)\<rparr>,
                                  psObj)
                          else Some (w1, psObj))
                       else Some (w1, psObj))
             else
               let dmg = calcDamage env (weaponDamage env psStats (player psObj))
                           (weaponEffect psStats) (objects w d);
                   sDamage = \<lparr>psProjectile = psObj, dmg_psDest = d, damage = dmg,
                               dmg_weaponClass = weaponClass psStats,
                               dmg_weaponSubClass = weaponSubClass psStats,
                               impactTime = time psObj, isDamagePerSecond = False,
                               minDamage = minimumDamage (upgrade psStats (player psObj)),
                               empRadiusHit = False\<rparr>;
                   (w1, relativeDamage) = objectDamage env w sDamage
               in Some (w1, if relativeDamage \<ge> 0 then psObj\<lparr>psDamaged := psDamaged psObj @ [d]\<rparr>
                            else psObj))"

definition proj_ImpactFunc :: "ENV \<Rightarrow> WORLD \<Rightarrow> PROJECTILE \<Rightarrow> WORLD \<times> PROJECTILE" where
  "proj_ImpactFunc env w0 psObj0 =
     (let psStats = psWStats psObj0;
          upg = upgrade psStats (player psObj0);
          w1 = w0\<lparr>g_pProjLastAttacker := psSource psObj0\<rparr>;
          w2 = (if periodicalDamageRadius upg \<noteq> 0 \<and> periodicalDamageTime upg \<noteq> 0
                then w1\<lparr>tileFire := tileFire w1
                        @ [(vec_x (pos psObj0), vec_y (pos psObj0), periodicalDamageTime upg)]\<rparr>
                else w1)
      in case impactHit env w2 psObj0 of
           None \<Rightarrow> (w2, psObj0\<lparr>state := PROJ_INACTIVE\<rparr>)
         | Some (w3, psObj1) \<Rightarrow>
             let temp = psDest psObj1;
                 (w4, psObj2) = setProjectileDestination w3 psObj1 None;
                 psObj3 = psObj2\<lparr>expectedDamageCaused := 0\<rparr>;
                 (w5, psObj) = setProjectileDestination w4 psObj3 temp
             in if upg_radius upg = 0 \<and> periodicalDamageTime upg = 0
                then (w5, psObj\<lparr>state := PROJ_INACTIVE\<rparr>)
                else
                  let hasRadius = (upg_radius upg \<noteq> 0);
                      hasEMPRadius = (empRadius upg \<noteq> 0);
                      (w8, psObj') =
                        (if hasRadius \<or> hasEMPRadius then
                           let p1 = psObj\<lparr>state := PROJ_POSTIMPACT, born := gameTime w5\<rparr>;
                               targetPos =
                                 (case psDest p1 of
                                    None \<Rightarrow> pos p1
                                  | Some d \<Rightarrow> if otype (objects w5 d) = OBJ_DROID
                                              then pos (objects w5 d) else pos p1);
                               w6 = (if hasEMPRadius \<and> weaponSubClass psStats = WSC_EMP
                                     then proj_radiusSweep env w5 p1 psStats targetPos True else w5);
                               w7 = (if hasRadius
                                     then proj_radiusSweep env w6 p1 psStats targetPos False else w6)
                           in (w7, p1)
                         else (w5, psObj))
                  in if periodicalDamageTime upg \<noteq> 0
                     then (w8, psObj'\<lparr>state := PROJ_POSTIMPACT, born := gameTime w8\<rparr>)
                     else (w8, psObj'))"

section \<open>After the impact\<close>

definition periodicalDamageStep :: "ENV \<Rightarrow> PROJECTILE \<Rightarrow> WORLD \<Rightarrow> nat \<Rightarrow> WORLD" where
  "periodicalDamageStep env psProj w ptr =
     (let psCurr = objects w ptr;
          psStats = psWStats psProj
      in if died psCurr \<noteq> 0 then w
         else if aiCheckAlliances env (player psProj) (player psCurr) then w
         else if otype psCurr = OBJ_DROID \<and> isVtol env psCurr \<and> sMove_Status psCurr \<noteq> MOVEINACTIVE then w
         else if otype psCurr = OBJ_FEATURE \<and> \<not> damageable psCurr then w
         else
           let psCurr1 = (if periodicalDamageStart psCurr \<noteq> gameTime w
                          then psCurr\<lparr>periodicalDamageStart := gameTime w, periodicalDamage := 0\<rparr>
                          else psCurr);
               w1 = w\<lparr>objects := (objects w)(ptr := psCurr1)\<rparr>;
               damageRate = calcDamage env (weaponPeriodicalDamage env psStats (player psProj))
                              (periodicalDamageWeaponEffect psStats) psCurr1;
               sDamage = \<lparr>psProjectile = psProj, dmg_psDest = ptr, damage = damageRate,
                           dmg_weaponClass = periodicalDamageWeaponClass psStats,
                           dmg_weaponSubClass = periodicalDamageWeaponSubClass psStats,
                           impactTime = gameTime w - deltaGameTime w div 2 + 1,
                           isDamagePerSecond = True,
                           minDamage = minimumDamage (upgrade psStats (player psProj)),
                           empRadiusHit = False\<rparr>
           in fst (objectDamage env w1 sDamage))"

definition proj_checkPeriodicalDamage :: "ENV \<Rightarrow> WORLD \<Rightarrow> PROJECTILE \<Rightarrow> WORLD" where
  "proj_checkPeriodicalDamage env w0 psProj =
     (let w = w0\<lparr>g_pProjLastAttacker := psSource psProj\<rparr>;
          gridList = gridStartIterate env w (vec_x (pos psProj)) (vec_y (pos psProj))
                       (periodicalDamageRadius (upgrade (psWStats psProj) (player psProj)))
      in foldl (periodicalDamageStep env psProj) w gridList)"

definition proj_PostImpactFunc :: "ENV \<Rightarrow> WORLD \<Rightarrow> PROJECTILE \<Rightarrow> WORLD \<times> PROJECTILE" where
  "proj_PostImpactFunc env w psObj =
     (let psStats = psWStats psObj;
          age = sint (gameTime w - born psObj)
      in if age > radiusLife psStats \<and> age > periodicalDamageTime (upgrade psStats (player psObj))
         then (w, psObj\<lparr>state := PROJ_INACTIVE\<rparr>)
         else if periodicalDamageTime (upgrade psStats (player psObj)) > 0
         then (proj_checkPeriodicalDamage env w psObj, psObj)
         else (w, psObj))"

section \<open>The update of one projectile\<close>

text \<open>
  \<open>PROJECTILE::update\<close>: the new world, the projectile and the spawned projectile.  The
  \<open>switch\<close> falls through from \<open>PROJ_INFLIGHT\<close> to \<open>PROJ_IMPACT\<close> to \<open>PROJ_POSTIMPACT\<close> when the
  state has moved on.  \<open>psObj->died = true\<close> stores 1.
\<close>

definition impactThenPost :: "ENV \<Rightarrow> WORLD \<Rightarrow> PROJECTILE \<Rightarrow> WORLD \<times> PROJECTILE" where
  "impactThenPost env w psObj =
     (let (w1, p1) = proj_ImpactFunc env w psObj
      in if state p1 \<noteq> PROJ_POSTIMPACT then (w1, p1) else proj_PostImpactFunc env w1 p1)"

definition update :: "ENV \<Rightarrow> WORLD \<Rightarrow> PROJECTILE \<Rightarrow> (WORLD \<times> PROJECTILE \<times> PROJECTILE option) option" where
  "update env w psObj0 =
     (let p0 = psObj0\<lparr>prevSpacetime := getSpacetime psObj0\<rparr>;
          p1 = (case psSource p0 of
                  None \<Rightarrow> p0
                | Some s \<Rightarrow> if died (objects w s) \<noteq> 0 then p0\<lparr>psSource := None\<rparr> else p0);
          (w1, p2) = (case psDest p1 of
                        None \<Rightarrow> (w, p1)
                      | Some d \<Rightarrow> if died (objects w d) \<noteq> 0
                                  then setProjectileDestination w p1 None else (w, p1));
          p3 = p2\<lparr>psDamaged := filter (\<lambda>obj. \<not> isDead env (objects w1 obj)) (psDamaged p2)\<rparr>
      in if \<not> worldOnMap env (vec_x (pos p3)) (vec_y (pos p3))
         then Some (w1, p3\<lparr>died := 1\<rparr>, None)
         else
           (case state p3 of
              PROJ_INFLIGHT \<Rightarrow>
                (case proj_InFlightFunc env w1 p3 of
                   None \<Rightarrow> None
                 | Some (w2, p4, spawnedProjectile) \<Rightarrow>
                     if state p4 \<noteq> PROJ_IMPACT then Some (w2, p4, spawnedProjectile)
                     else let (w3, p5) = impactThenPost env w2 p4 in Some (w3, p5, spawnedProjectile))
            | PROJ_IMPACT \<Rightarrow> (let (w3, p5) = impactThenPost env w1 p3 in Some (w3, p5, None))
            | PROJ_POSTIMPACT \<Rightarrow> (let (w3, p5) = proj_PostImpactFunc env w1 p3 in Some (w3, p5, None))
            | PROJ_INACTIVE \<Rightarrow> Some (w1, p3\<lparr>died := time p3\<rparr>, None)))"

section \<open>The registry\<close>

text \<open>
  \<open>globalProjectileStorage\<close> is a paged container whose \<open>emplace\<close> "may insert new elements in
  place of old ones": which free slot it takes is the choice \<open>alloc\<close> of the container (it is not
  among the sources).  A slot is a position in \<open>storage\<close>, \<open>None\<close> when it is free; a pointer to
  a projectile is its slot.  A choice that is not a free slot of the container appends one.
  \<open>psProjectileList\<close> is the list of pointers in the order of insertion.
\<close>

record SIMULATION =
  world :: WORLD
  storage :: "PROJECTILE option list"
  psProjectileList :: "nat list"

definition emplace ::
  "(PROJECTILE option list \<Rightarrow> nat) \<Rightarrow> PROJECTILE option list \<Rightarrow> PROJECTILE \<Rightarrow> PROJECTILE option list \<times> nat" where
  "emplace alloc store p =
     (let i = alloc store
      in if i < length store \<and> store ! i = None then (store[i := Some p], i)
         else (store @ [Some p], length store))"

definition proj_InitSystem :: "WORLD \<Rightarrow> SIMULATION" where
  "proj_InitSystem w =
     \<lparr>world = w\<lparr>experienceGain := (\<lambda>x. 100), projectileTrackerIDIncrement := 0\<rparr>,
      storage = [], psProjectileList = []\<rparr>"

definition proj_AddActiveProjectile :: "SIMULATION \<Rightarrow> nat \<Rightarrow> SIMULATION" where
  "proj_AddActiveProjectile sim p = sim\<lparr>psProjectileList := psProjectileList sim @ [p]\<rparr>"

text \<open>
  \<open>proj_SendProjectileAngled\<close>: the weapon's \<open>nStat\<close> is looked up in \<open>asWeaponStats\<close>; the result is
  the new state and the returned flag.
\<close>

definition proj_SendProjectileAngled ::
  "(PROJECTILE option list \<Rightarrow> nat) \<Rightarrow> ENV \<Rightarrow> SIMULATION \<Rightarrow> nat \<Rightarrow> nat option \<Rightarrow> nat \<Rightarrow> Vector3i
     \<Rightarrow> nat option \<Rightarrow> int \<Rightarrow> int \<Rightarrow> 32 word \<Rightarrow> (SIMULATION \<times> bool) option" where
  "proj_SendProjectileAngled alloc env sim nStat psAttacker plr target psTarget weapon_slot
      min_angle fireTime =
     (case proj_SendProjectileAngledInternal env (world sim)
             (if nStat < length (asWeaponStats env) then Some (asWeaponStats env ! nStat) else None)
             (map_option AttackerObject psAttacker) plr target psTarget weapon_slot min_angle fireTime of
        None \<Rightarrow> None
      | Some (w, None) \<Rightarrow> Some (sim\<lparr>world := w\<rparr>, False)
      | Some (w, Some p) \<Rightarrow>
          let (store, h) = emplace alloc (storage sim) p
          in Some (proj_AddActiveProjectile (sim\<lparr>world := w, storage := store\<rparr>) h, True))"

definition proj_SendProjectile ::
  "(PROJECTILE option list \<Rightarrow> nat) \<Rightarrow> ENV \<Rightarrow> SIMULATION \<Rightarrow> nat \<Rightarrow> nat option \<Rightarrow> nat \<Rightarrow> Vector3i
     \<Rightarrow> nat option \<Rightarrow> int \<Rightarrow> (SIMULATION \<times> bool) option" where
  "proj_SendProjectile alloc env sim nStat psAttacker plr target psTarget weapon_slot =
     proj_SendProjectileAngled alloc env sim nStat psAttacker plr target psTarget weapon_slot 0
       (gameTime (world sim) - 1)"

text \<open>Reading a pointer: the projectile in the slot, \<open>None\<close> when the slot is free or does not exist.\<close>

definition slot :: "PROJECTILE option list \<Rightarrow> nat \<Rightarrow> PROJECTILE option" where
  "slot store h = (if h < length store then store ! h else None)"

text \<open>
  The first loop of \<open>proj_UpdateAll\<close>: every pointer of the list is updated in turn, and a spawned
  projectile is put in storage and staged in \<open>spawnedProjectiles\<close>.  The state is the world, the
  storage and the staged pointers.  Every pointer of the list names an occupied slot; the loop
  passes over one that does not.
\<close>

fun updateLoop ::
  "(PROJECTILE option list \<Rightarrow> nat) \<Rightarrow> ENV \<Rightarrow> nat list \<Rightarrow> WORLD \<times> PROJECTILE option list \<times> nat list
     \<Rightarrow> (WORLD \<times> PROJECTILE option list \<times> nat list) option" where
  "updateLoop alloc env [] s = Some s"
| "updateLoop alloc env (h # hs) (w, store, spawnedProjectiles) =
     (case slot store h of
        None \<Rightarrow> updateLoop alloc env hs (w, store, spawnedProjectiles)
      | Some p \<Rightarrow>
          (case update env w p of
             None \<Rightarrow> None
           | Some (w', p', None) \<Rightarrow>
               updateLoop alloc env hs (w', store[h := Some p'], spawnedProjectiles)
           | Some (w', p', Some spawned) \<Rightarrow>
               updateLoop alloc env hs
                 (w', fst (emplace alloc (store[h := Some p']) spawned),
                  spawnedProjectiles @ [snd (emplace alloc (store[h := Some p']) spawned)])))"

text \<open>The predicate of the \<open>remove_if\<close>: the projectile died before the current tick window.\<close>

definition removable :: "WORLD \<Rightarrow> PROJECTILE \<Rightarrow> bool" where
  "removable w p \<longleftrightarrow> \<not> (died p = 0 \<or> died p \<ge> gameTime w - deltaGameTime w)"

definition slotRemovable :: "WORLD \<Rightarrow> PROJECTILE option list \<Rightarrow> nat \<Rightarrow> bool" where
  "slotRemovable w store h \<longleftrightarrow> (case slot store h of None \<Rightarrow> False | Some p \<Rightarrow> removable w p)"

definition eraseSlots :: "PROJECTILE option list \<Rightarrow> nat list \<Rightarrow> PROJECTILE option list" where
  "eraseSlots store hs = foldl (\<lambda>st h. st[h := None]) store hs"

definition proj_UpdateAll ::
  "(PROJECTILE option list \<Rightarrow> nat) \<Rightarrow> ENV \<Rightarrow> SIMULATION \<Rightarrow> SIMULATION option" where
  "proj_UpdateAll alloc env sim =
     (case updateLoop alloc env (psProjectileList sim) (world sim, storage sim, []) of
        None \<Rightarrow> None
      | Some (w, store, spawnedProjectiles) \<Rightarrow>
          Some \<lparr>world = w,
                storage = eraseSlots store (filter (slotRemovable w store) (psProjectileList sim)),
                psProjectileList = filter (\<lambda>h. \<not> slotRemovable w store h) (psProjectileList sim)
                                     @ spawnedProjectiles\<rparr>)"

section \<open>The registry as a sequence of projectiles\<close>

text \<open>
  What a consumer of the registry sees: the projectiles in the order of \<open>psProjectileList\<close>.  A
  registry is well formed when its pointers are distinct and name occupied slots.
\<close>

definition projectilesOf :: "SIMULATION \<Rightarrow> PROJECTILE option list" where
  "projectilesOf sim = map (slot (storage sim)) (psProjectileList sim)"

definition registryValid :: "PROJECTILE option list \<Rightarrow> nat list \<Rightarrow> bool" where
  "registryValid store hs \<longleftrightarrow> distinct hs \<and> (\<forall>h \<in> set hs. slot store h \<noteq> None)"

text \<open>
  The sweep that the specification describes, on the sequence of projectiles itself: each
  projectile of the sequence is updated in order, each on the world the earlier updates left;
  the children are staged apart, and appended once the projectiles that died before the tick
  window are removed.
\<close>

fun updateSweep ::
  "ENV \<Rightarrow> PROJECTILE list \<Rightarrow> WORLD \<times> PROJECTILE list \<times> PROJECTILE list
     \<Rightarrow> (WORLD \<times> PROJECTILE list \<times> PROJECTILE list) option" where
  "updateSweep env [] s = Some s"
| "updateSweep env (p # ps) (w, updated, spawned) =
     (case update env w p of
        None \<Rightarrow> None
      | Some (w', p', sp) \<Rightarrow>
          updateSweep env ps (w', updated @ [p'], spawned @ (case sp of None \<Rightarrow> [] | Some c \<Rightarrow> [c])))"

definition updateAllSequence :: "ENV \<Rightarrow> WORLD \<times> PROJECTILE list \<Rightarrow> (WORLD \<times> PROJECTILE list) option" where
  "updateAllSequence env s =
     (case updateSweep env (snd s) (fst s, [], []) of
        None \<Rightarrow> None
      | Some (w, updated, spawned) \<Rightarrow> Some (w, filter (\<lambda>p. \<not> removable w p) updated @ spawned))"

section \<open>A small world to run the code on\<close>

text \<open>
  Three game objects on a map of 8192 by 8192 units: droid 0 of player 1 at (5000, 5000, 0),
  droid 1 of player 0 at (5000, 5200, 0) and feature 2 at (5000, 5400, 0); every other index
  holds a dead droid far away.  Players are allied with themselves only.  The collaborators are
  the simplest functions of the right type: the grid returns the objects among 0, 1 and 2 whose
  x and y are within the range, every target is a sphere of radius 20 and height 20, every hit
  does a relative damage of 10 and kills nothing, the terrain is flat and never hit, and a
  guessed future damage is 7.
\<close>

definition testObject :: "OBJECT_TYPE \<Rightarrow> nat \<Rightarrow> Vector3i \<Rightarrow> BASE_OBJECT" where
  "testObject ty plr p =
     \<lparr>otype = ty, obj_id = 0, pos = p, rot = zeroRotation, player = plr, born = 0, died = 0, time = 0,
      expectedDamage = 0, periodicalDamageStart = 0, periodicalDamage = 0,
      droid_prevSpacetime = \<lparr>st_time = 0, st_pos = p, st_rot = zeroRotation\<rparr>,
      sMove_moveDir = 0, sMove_speed = 0, sMove_Status = MOVEINACTIVE, experience = 0, kills = 0,
      order_type = DORDER_NONE, psCommander = None, damageable = True, psTarget0 = None\<rparr>"

definition testObjects :: "nat \<Rightarrow> BASE_OBJECT" where
  "testObjects i =
     (if i = 0 then testObject OBJ_DROID 1 \<lparr>vec_x = 5000, vec_y = 5000, vec_z = 0\<rparr>
      else if i = 1 then testObject OBJ_DROID 0 \<lparr>vec_x = 5000, vec_y = 5200, vec_z = 0\<rparr>
      else if i = 2 then testObject OBJ_FEATURE 2 \<lparr>vec_x = 5000, vec_y = 5400, vec_z = 0\<rparr>
      else (testObject OBJ_DROID 3 \<lparr>vec_x = 0, vec_y = 0, vec_z = 0\<rparr>)\<lparr>died := 1\<rparr>)"

definition testWorld :: WORLD where
  "testWorld =
     \<lparr>gameTime = 1100, deltaGameTime = 100, bMultiPlayer = False, objects = testObjects,
      gameRandState = 0, projectileTrackerIDIncrement = 0, experienceGain = (\<lambda>plr. 100),
      g_pProjLastAttacker = None, tileFire = []\<rparr>"

definition testGrid :: "WORLD \<Rightarrow> int \<Rightarrow> int \<Rightarrow> int \<Rightarrow> nat list" where
  "testGrid w x y r =
     filter (\<lambda>i. \<bar>vec_x (pos (objects w i)) - x\<bar> \<le> r \<and> \<bar>vec_y (pos (objects w i)) - y\<bar> \<le> r) [0, 1, 2]"

definition testEnv :: ENV where
  "testEnv =
     \<lparr>GAME_TICKS_PER_SEC = 1000, ACC_GRAVITY = 1000,
      iSin = (\<lambda>a. 0), iCos = (\<lambda>a. 65536), iAtan2 = (\<lambda>s c. 0),
      gameRand = (\<lambda>seed limit. (int seed mod limit, Suc seed)),
      MAX_PLAYERS = 11, TILE_UNITS = 128, LINE_OF_FIRE_MINIMUM = 5,
      world_coord_mapWidth = 8192, world_coord_mapHeight = 8192,
      iHypot = (\<lambda>x y. i64Sqrt (x * x + y * y)),
      iHypot3 = (\<lambda>v. i64Sqrt (vec_x v * vec_x v + vec_y v * vec_y v + vec_z v * vec_z v)),
      iSinCosR = (\<lambda>a r. (0, 0)),
      quantiseFraction = (\<lambda>v d t1 t2. zeroVector),
      map_Height = (\<lambda>x y. 0),
      map_LineIntersect = (\<lambda>a b t. 0xFFFFFFFF),
      worldOnMap = (\<lambda>x y. 0 \<le> x \<and> x < 8192 \<and> 0 \<le> y \<and> y < 8192),
      gridStartIterate = testGrid,
      aiCheckAlliances = (\<lambda>a b. a = b),
      establishTargetHeight = (\<lambda>w obj. 20),
      establishTargetShape = (\<lambda>obj. \<lparr>isRectangular = False, size_x = 20, size_y = 20\<rparr>),
      interpolateObjectSpacetime =
        (\<lambda>p t. \<lparr>st_time = t, st_pos = st_pos (prevSpacetime p), st_rot = rot p\<rparr>),
      isDead = (\<lambda>obj. died obj \<noteq> 0),
      isFlying = (\<lambda>obj. False), isVtol = (\<lambda>obj. False), propulsionTravelAir = (\<lambda>obj. False),
      Vector3i_InSphere = (\<lambda>a b r. True),
      structStrengthModifier = (\<lambda>e obj. 100), weaponModifier = (\<lambda>e obj. 100),
      weaponModifierBody = (\<lambda>e obj. 100),
      weaponDamage = (\<lambda>s plr. 10), weaponRadDamage = (\<lambda>s plr. 5),
      weaponPeriodicalDamage = (\<lambda>s plr. 1),
      droidDamage = (\<lambda>obj d. (obj, 10)), structureDamage = (\<lambda>obj d. (obj, 10)),
      featureDamage = (\<lambda>obj d. (obj, 10)),
      electronicDamage = (\<lambda>obj d plr. (obj, False)),
      actionDroid_NONE = (\<lambda>obj. obj),
      calcDroidPower = (\<lambda>obj. 1), calcDroidPoints = (\<lambda>obj. 1),
      cmdDroidGetDesignator = (\<lambda>w plr. None), designatorAttacks = (\<lambda>obj t. False),
      orderStateObj_FIRESUPPORT = (\<lambda>obj. None),
      objGuessFutureDamage = (\<lambda>w s plr t. 7),
      calcMuzzleLocation = (\<lambda>obj slot. pos obj),
      updateVtolAttackRun = (\<lambda>obj slot. obj),
      areaOfFire = (\<lambda>w a t slot. 0),
      setWeaponPitch = (\<lambda>obj slot p s. obj),
      counterBatteryFire = (\<lambda>w a t. w),
      asWeaponStats = []\<rparr>"

text \<open>A direct, penetrating weapon of speed 1000 and range 2000 without splash.\<close>

definition testStats :: WEAPON_STATS where
  "testStats =
     \<lparr>movementModel = MM_DIRECT, weaponClass = 0, weaponSubClass = WSC_CANNON, weaponEffect = 0,
      periodicalDamageWeaponClass = 0, periodicalDamageWeaponSubClass = WSC_FLAME,
      periodicalDamageWeaponEffect = 0, flightSpeed = 1000, penetrate = True,
      shootOnGround = True, shootInAir = False, distanceExtensionFactor = 150, radiusLife = 0,
      noFriendlyFire = False,
      upgrade = (\<lambda>plr. \<lparr>maxRange = 2000, upg_radius = 0, empRadius = 0, periodicalDamageRadius = 0,
                           periodicalDamageTime = 0, minimumDamage = 0\<rparr>)\<rparr>"

text \<open>
  A shot of player 0 without destination, fired at time 0 from (4000, 5000, 10) towards
  (6000, 5000, 10), whose previous sample was taken at time 900 at (4900, 5000, 10).
\<close>

definition testProjectile :: PROJECTILE where
  "testProjectile =
     \<lparr>otype = OBJ_PROJECTILE, obj_id = 1, pos = \<lparr>vec_x = 4900, vec_y = 5000, vec_z = 10\<rparr>,
      rot = zeroRotation, player = 0, born = 0, died = 0, time = 900,
      state = PROJ_INFLIGHT, psWStats = testStats, psSource = None, psDest = None, psDamaged = [],
      src = \<lparr>vec_x = 4000, vec_y = 5000, vec_z = 10\<rparr>, dst = \<lparr>vec_x = 6000, vec_y = 5000, vec_z = 10\<rparr>,
      vXY = 0, vZ = 0,
      prevSpacetime = \<lparr>st_time = 900, st_pos = \<lparr>vec_x = 4900, vec_y = 5000, vec_z = 10\<rparr>,
                        st_rot = zeroRotation\<rparr>,
      expectedDamageCaused = 0, partVisible = 0\<rparr>"

text \<open>The same shot on a line 4000 units away from the three objects: it meets nothing.\<close>

definition testMiss :: PROJECTILE where
  "testMiss = testProjectile\<lparr>pos := \<lparr>vec_x = 4900, vec_y = 1000, vec_z = 10\<rparr>,
     src := \<lparr>vec_x = 4000, vec_y = 1000, vec_z = 10\<rparr>, dst := \<lparr>vec_x = 6000, vec_y = 1000, vec_z = 10\<rparr>,
     prevSpacetime := \<lparr>st_time = 900, st_pos = \<lparr>vec_x = 4900, vec_y = 1000, vec_z = 10\<rparr>,
                        st_rot = zeroRotation\<rparr>\<rparr>"

section \<open>Properties\<close>

subsection \<open>Machine integers\<close>

lemma i32_id: "- 2147483648 \<le> x \<Longrightarrow> x < 2147483648 \<Longrightarrow> i32 x = x"
  by (simp add: i32_def)

lemma u32_id: "0 \<le> x \<Longrightarrow> x < 4294967296 \<Longrightarrow> u32 x = x"
  by (simp add: u32_def)

lemma i64_id: "- 9223372036854775808 \<le> x \<Longrightarrow> x < 9223372036854775808 \<Longrightarrow> i64 x = x"
  by (simp add: i64_def)

lemma u64_id: "0 \<le> x \<Longrightarrow> x < 18446744073709551616 \<Longrightarrow> u64 x = x"
  by (simp add: u64_def)

lemma i32_abs: "\<bar>x\<bar> < 2147483648 \<Longrightarrow> i32 x = x"
  by (rule i32_id) auto

lemma i64_abs: "\<bar>x\<bar> < 9223372036854775808 \<Longrightarrow> i64 x = x"
  by (rule i64_id) auto

lemma abs_mult_le:
  fixes a b :: int
  shows "\<bar>a\<bar> \<le> A \<Longrightarrow> \<bar>b\<bar> \<le> B \<Longrightarrow> \<bar>a * b\<bar> \<le> A * B"
  unfolding abs_mult by (rule mult_mono) auto

lemma abs_sdiv: "\<bar>a sdiv b\<bar> = (if a = 0 \<or> b = 0 then 0 else \<bar>a\<bar> div \<bar>b :: int\<bar>)"
proof -
  have nn: "0 \<le> \<bar>a\<bar> div \<bar>b\<bar>" by (simp add: div_int_pos_iff)
  have "\<bar>a sdiv b\<bar> = \<bar>sgn a\<bar> * \<bar>sgn b\<bar> * (\<bar>a\<bar> div \<bar>b\<bar>)"
    using nn by (simp add: signed_divide_int_def abs_mult)
  then show ?thesis by (simp add: sgn_if)
qed

lemma abs_sdiv_le: "\<bar>a sdiv b\<bar> \<le> \<bar>a :: int\<bar>"
proof -
  have "\<bar>a\<bar> div \<bar>b\<bar> \<le> \<bar>a\<bar>"
  proof (cases "b = 0")
    case False
    then show ?thesis using zdiv_mono2 [of "\<bar>a\<bar>" 1 "\<bar>b\<bar>"] by simp
  qed simp
  then show ?thesis by (simp add: abs_sdiv)
qed

lemma sdiv_le_of_le_mult:
  fixes a b k :: int
  assumes "0 < b" "a \<le> k * b" "0 \<le> k"
  shows "a sdiv b \<le> k"
proof (cases "0 \<le> a")
  case True
  then have "a sdiv b = a div b"
    using assms(1) by (simp add: signed_divide_int_def sgn_if)
  moreover have "a div b \<le> (k * b) div b"
    using assms by (intro zdiv_mono1) auto
  ultimately show ?thesis using assms(1) by simp
next
  case False
  then have "a sdiv b = - ((- a) div b)"
    using assms(1) by (simp add: signed_divide_int_def sgn_if)
  moreover have "0 \<le> (- a) div b"
    using False assms(1) by (simp add: pos_imp_zdiv_nonneg_iff)
  ultimately show ?thesis using assms(3) by linarith
qed

lemma abs_sdiv_le_of_le_mult:
  fixes a b k :: int
  assumes "0 < b" "\<bar>a\<bar> \<le> k * b"
  shows "\<bar>a sdiv b\<bar> \<le> k"
proof -
  have k: "0 \<le> k"
  proof (rule ccontr)
    assume "\<not> 0 \<le> k"
    then have "k * b < 0" using assms(1) by (simp add: mult_less_0_iff)
    then show False using assms(2) by linarith
  qed
  have "\<bar>a\<bar> sdiv b = \<bar>a\<bar> div b"
    using assms(1) by (simp add: signed_divide_int_def sgn_if)
  then have e: "\<bar>a sdiv b\<bar> = \<bar>a\<bar> sdiv b"
    using assms(1) by (simp add: abs_sdiv)
  show ?thesis unfolding e using assms k by (intro sdiv_le_of_le_mult) auto
qed

subsection \<open>The integer square root\<close>

lemma sqrt_floor_correct: "(sqrt_floor n)\<^sup>2 \<le> n \<and> n < (sqrt_floor n + 1)\<^sup>2"
proof (induction n rule: sqrt_floor.induct)
  case (1 n)
  show ?case
  proof (cases "n < 2")
    case True
    then have "n = 0 \<or> n = 1" by linarith
    then show ?thesis by (auto simp: sqrt_floor.simps [of 0] sqrt_floor.simps [of "Suc 0"] power2_eq_square)
  next
    case False
    define s where "s = sqrt_floor (n div 4)"
    have ih: "s\<^sup>2 \<le> n div 4" "n div 4 < (s + 1)\<^sup>2"
      using 1 False by (simp_all add: s_def)
    have lo: "(2 * s)\<^sup>2 \<le> n"
    proof -
      have "4 * s\<^sup>2 \<le> 4 * (n div 4)" using ih(1) by simp
      also have "\<dots> \<le> n" by simp
      finally show ?thesis by (simp add: power2_eq_square)
    qed
    have hi: "n < (2 * s + 2)\<^sup>2"
    proof -
      have "n div 4 + 1 \<le> (s + 1)\<^sup>2" using ih(2) by simp
      then have "4 * (n div 4) + 4 \<le> 4 * (s + 1)\<^sup>2" by simp
      moreover have "n < 4 * (n div 4) + 4" by presburger
      ultimately have "n < 4 * (s + 1)\<^sup>2" by linarith
      then show ?thesis by (simp add: power2_eq_square algebra_simps)
    qed
    have eq: "sqrt_floor n = (if (2 * s + 1) * (2 * s + 1) \<le> n then 2 * s + 1 else 2 * s)"
      using False by (subst sqrt_floor.simps) (simp add: Let_def s_def)
    show ?thesis
    proof (cases "(2 * s + 1) * (2 * s + 1) \<le> n")
      case True
      then show ?thesis using hi by (simp add: eq power2_eq_square)
    next
      case False
      then show ?thesis using lo by (simp add: eq power2_eq_square)
    qed
  qed
qed

lemma sqrt_floor_eqI: "r * r \<le> n \<Longrightarrow> n < (r + 1) * (r + 1) \<Longrightarrow> sqrt_floor n = r"
proof -
  assume a: "r * r \<le> n" "n < (r + 1) * (r + 1)"
  let ?s = "sqrt_floor n"
  have s: "?s * ?s \<le> n" "n < (?s + 1) * (?s + 1)"
    using sqrt_floor_correct [of n] by (simp_all add: power2_eq_square)
  have "\<not> r < ?s"
  proof
    assume "r < ?s"
    then have "r + 1 \<le> ?s" by linarith
    then have "(r + 1) * (r + 1) \<le> ?s * ?s" by (rule mult_le_mono [OF _ _, of "r + 1" ?s "r + 1" ?s, OF _ \<open>r + 1 \<le> ?s\<close>])
    with s(1) a(2) show False by linarith
  qed
  moreover have "\<not> ?s < r"
  proof
    assume "?s < r"
    then have "?s + 1 \<le> r" by linarith
    then have "(?s + 1) * (?s + 1) \<le> r * r" by (rule mult_le_mono [OF _ _, of "?s + 1" r "?s + 1" r, OF _ \<open>?s + 1 \<le> r\<close>])
    with s(2) a(1) show False by linarith
  qed
  ultimately show ?thesis by linarith
qed

lemma isqrt_int:
  fixes n :: int
  assumes "0 \<le> n"
  defines "s \<equiv> int (sqrt_floor (nat n))"
  shows "0 \<le> s" "s * s \<le> n" "n < (s + 1) * (s + 1)"
proof -
  let ?k = "sqrt_floor (nat n)"
  have k: "?k * ?k \<le> nat n" "nat n < (?k + 1) * (?k + 1)"
    using sqrt_floor_correct [of "nat n"] by (simp_all add: power2_eq_square)
  show "0 \<le> s" by (simp add: s_def)
  have "int (?k * ?k) \<le> int (nat n)" using k(1) by (simp only: of_nat_le_iff)
  then show "s * s \<le> n" using assms(1) by (simp add: s_def)
  have "int (nat n) < int ((?k + 1) * (?k + 1))" using k(2) by (simp only: of_nat_less_iff)
  then show "n < (s + 1) * (s + 1)" using assms(1) by (simp add: s_def algebra_simps)
qed

lemma isqrt_int_less:
  fixes n m :: int
  assumes "0 \<le> n" "0 \<le> m" "n < m * m"
  shows "int (sqrt_floor (nat n)) < m"
proof (rule ccontr)
  let ?s = "int (sqrt_floor (nat n))"
  assume "\<not> ?s < m"
  then have "m \<le> ?s" by simp
  then have "m * m \<le> ?s * ?s" using assms(2) by (intro mult_mono) auto
  then show False using isqrt_int(2) [OF assms(1)] assms(3) by linarith
qed

lemma isqrt_int_le:
  fixes n m :: int
  assumes "0 \<le> n" "0 \<le> m" "n \<le> m * m"
  shows "int (sqrt_floor (nat n)) \<le> m"
proof -
  have "n < (m + 1) * (m + 1)" using assms by (simp add: algebra_simps)
  then have "int (sqrt_floor (nat n)) < m + 1" using assms by (intro isqrt_int_less) auto
  then show ?thesis by simp
qed

lemma i64Sqrt_nonneg: "0 \<le> n \<Longrightarrow> n < 18446744073709551616 \<Longrightarrow> i64Sqrt n = int (sqrt_floor (nat n))"
  by (simp add: i64Sqrt_def u64_id)

lemma iSqrt_nonneg: "0 \<le> n \<Longrightarrow> n < 4294967296 \<Longrightarrow> iSqrt n = int (sqrt_floor (nat n))"
  by (simp add: iSqrt_def u32_id)

subsection \<open>Collision times\<close>

text \<open>
  For coordinates and a height of at most 20 bits no operation of the slab test leaves the
  \<open>int32_t\<close> range, and the test is the one on mathematical integers.
\<close>

lemma collisionZ_in_range:
  assumes "\<bar>z1\<bar> \<le> 1048575" "\<bar>z2\<bar> \<le> 1048575" "\<bar>h\<bar> \<le> 1048575"
  defines "a \<equiv> (if z1 > z2 then - z1 else z1)" and "b \<equiv> (if z1 > z2 then - z2 else z2)"
  shows "collisionZ z1 z2 h =
      (if a > h \<or> b < - h then \<lparr>i_begin = -1, i_end = -1\<rparr>
         else if a = b then
           (if a \<ge> - h \<and> a \<le> h then \<lparr>i_begin = 0, i_end = 1024\<rparr>
            else \<lparr>i_begin = -1, i_end = -1\<rparr>)
         else \<lparr>i_begin = (1024 * (- h - a)) sdiv (b - a),
               i_end = (1024 * (h - a)) sdiv (b - a)\<rparr>)"
proof -
  have ab: "\<bar>a\<bar> \<le> 1048575" "\<bar>b\<bar> \<le> 1048575" using assms(1,2) by (auto simp: a_def b_def)
  have w1: "i32 (- z1) = - z1" "i32 (- z2) = - z2" "i32 (- h) = - h"
    using assms(1-3) by (auto intro!: i32_abs)
  have w2: "i32 (b - a) = b - a" using ab by (intro i32_abs) auto
  have n1: "\<bar>1024 * (- h - a)\<bar> < 2147483648" using ab(1) assms(3) by auto
  have n2: "\<bar>1024 * (h - a)\<bar> < 2147483648" using ab(1) assms(3) by auto
  have w3: "i32 (1024 * (- h - a)) = 1024 * (- h - a)" "i32 (1024 * (h - a)) = 1024 * (h - a)"
    using n1 n2 by (auto intro!: i32_abs)
  have w4: "i32 ((1024 * (- h - a)) sdiv (b - a)) = (1024 * (- h - a)) sdiv (b - a)"
    using abs_sdiv_le [of "1024 * (- h - a)" "b - a"] n1 by (intro i32_abs) linarith
  have w5: "i32 ((1024 * (h - a)) sdiv (b - a)) = (1024 * (h - a)) sdiv (b - a)"
    using abs_sdiv_le [of "1024 * (h - a)" "b - a"] n2 by (intro i32_abs) linarith
  have "collisionZ z1 z2 h =
      (if a > h \<or> b < i32 (- h) then \<lparr>i_begin = -1, i_end = -1\<rparr>
         else if a = b then
           (if a \<ge> i32 (- h) \<and> a \<le> h then \<lparr>i_begin = 0, i_end = 1024\<rparr>
            else \<lparr>i_begin = -1, i_end = -1\<rparr>)
         else \<lparr>i_begin = i32 (i32 (1024 * (- h - a)) sdiv i32 (b - a)),
               i_end = i32 (i32 (1024 * (h - a)) sdiv i32 (b - a))\<rparr>)"
    unfolding collisionZ_def Let_def w1(1,2) a_def b_def by (rule refl)
  then show ?thesis unfolding w1 w2 w3 w4 w5 .
qed

text \<open>
  On each axis the slab test never reports an entry time after time 2: once the two early
  exits have passed, the later sample lies at or above \<open>-height\<close>.
\<close>

lemma collisionZ_begin_le:
  assumes "\<bar>z1\<bar> \<le> 1048575" "\<bar>z2\<bar> \<le> 1048575" "\<bar>h\<bar> \<le> 1048575"
  shows "i_begin (collisionZ z1 z2 h) \<le> 1024"
proof -
  define a where "a = (if z1 > z2 then - z1 else z1)"
  define b where "b = (if z1 > z2 then - z2 else z2)"
  have ab: "a \<le> b" by (auto simp: a_def b_def)
  have key: "(1024 * (- h - a)) sdiv (b - a) \<le> 1024" if "a \<noteq> b" "\<not> b < - h"
    using that ab by (intro sdiv_le_of_le_mult) auto
  show ?thesis
    unfolding collisionZ_in_range [OF assms] a_def [symmetric] b_def [symmetric]
    using key by (simp del: minus_diff_eq)
qed

text \<open>
  The circle test squares its coefficients in 64 bits: for coordinates and a radius of at most
  14 bits nothing overflows.  That the two roots fit the \<open>int\<close> fields of the interval rests on
  the Cauchy-Schwarz inequality, \<open>b\<^sup>2 \<le> v1\<^sup>2 * a\<close>, which bounds \<open>b\<close> and the root of the
  discriminant by multiples of \<open>a\<close>.
\<close>

lemma cauchy_schwarz2:
  fixes x y u v :: int
  shows "(x * u + y * v) * (x * u + y * v) \<le> (x * x + y * y) * (u * u + v * v)"
proof -
  have "(x * x + y * y) * (u * u + v * v) - (x * u + y * v) * (x * u + y * v) = (x * v - y * u) * (x * v - y * u)"
    by (simp add: algebra_simps)
  moreover have "0 \<le> (x * v - y * u) * (x * v - y * u)" by simp
  ultimately show ?thesis by linarith
qed

lemma abs_le_of_square_le:
  fixes x k :: int
  assumes "x * x \<le> k * k" "0 \<le> k"
  shows "\<bar>x\<bar> \<le> k"
proof (rule ccontr)
  assume "\<not> \<bar>x\<bar> \<le> k"
  then have "k + 1 \<le> \<bar>x\<bar>" by simp
  then have "(k + 1) * (k + 1) \<le> \<bar>x\<bar> * \<bar>x\<bar>" using assms(2) by (intro mult_mono) auto
  then show False using assms by (simp add: algebra_simps abs_mult_self_eq)
qed

lemma square_le:
  fixes x :: int
  shows "\<bar>x\<bar> \<le> k \<Longrightarrow> x * x \<le> k * k"
  using abs_mult_le [of x k x k] by simp

lemma collisionXY_in_range:
  assumes r: "\<bar>x1\<bar> \<le> 16384" "\<bar>y1\<bar> \<le> 16384" "\<bar>x2\<bar> \<le> 16384" "\<bar>y2\<bar> \<le> 16384" "\<bar>rad\<bar> \<le> 16384"
  defines "dx \<equiv> x2 - x1" and "dy \<equiv> y2 - y1"
  defines "a \<equiv> dx * dx + dy * dy"
  defines "b \<equiv> x1 * dx + y1 * dy"
  defines "c \<equiv> x1 * x1 + y1 * y1 - rad * rad"
  defines "d \<equiv> b * b - a * c"
  defines "sd \<equiv> int (sqrt_floor (nat d))"
  shows "collisionXY x1 y1 x2 y2 rad =
      (if d < 0 then \<lparr>i_begin = -1, i_end = -1\<rparr>
       else if a = 0 then
         (if c < 0 then \<lparr>i_begin = 0, i_end = 1024\<rparr> else \<lparr>i_begin = -1, i_end = -1\<rparr>)
       else \<lparr>i_begin = max 0 ((1024 * (- b - sd)) sdiv a),
             i_end = min 1024 ((1024 * (- b + sd)) sdiv a)\<rparr>)"
proof -
  have dxy: "\<bar>dx\<bar> \<le> 32768" "\<bar>dy\<bar> \<le> 32768" using r by (auto simp: dx_def dy_def)
  have wd: "i32 (x2 - x1) = dx" "i32 (y2 - y1) = dy"
    using dxy by (auto simp: dx_def dy_def intro!: i32_abs)
  have sq: "dx * dx \<le> 32768 * 32768" "dy * dy \<le> 32768 * 32768"
    "x1 * x1 \<le> 16384 * 16384" "y1 * y1 \<le> 16384 * 16384" "rad * rad \<le> 16384 * 16384"
    using square_le [OF dxy(1)] square_le [OF dxy(2)] square_le [OF r(1)] square_le [OF r(2)]
      square_le [OF r(5)] by simp_all
  have a0: "0 \<le> a" by (simp add: a_def)
  have a1: "a \<le> 2147483648" using sq(1,2) by (simp add: a_def)
  have v0: "0 \<le> x1 * x1 + y1 * y1" by simp
  have v1: "x1 * x1 + y1 * y1 \<le> 536870912" using sq(3,4) by simp
  have b1: "\<bar>b\<bar> \<le> 1073741824"
    using abs_mult_le [OF r(1) dxy(1)] abs_mult_le [OF r(2) dxy(2)] by (simp add: b_def)
  have c1: "\<bar>c\<bar> \<le> 536870912"
  proof -
    have "0 \<le> rad * rad" by simp
    then show ?thesis using v0 v1 sq(5) unfolding c_def by linarith
  qed
  have bb: "b * b \<le> 1073741824 * 1073741824" using b1 by (rule square_le)
  have ac: "\<bar>a * c\<bar> \<le> 2147483648 * 536870912"
    using a0 a1 c1 by (intro abs_mult_le) auto
  have d1: "\<bar>d\<bar> \<le> 2305843009213693952"
  proof -
    have "0 \<le> b * b" by simp
    moreover have "a * c \<le> 1152921504606846976" "- (a * c) \<le> 1152921504606846976"
      using ac by (simp_all add: abs_le_iff)
    moreover have "b * b \<le> 1152921504606846976" using bb by simp
    ultimately show ?thesis unfolding d_def by linarith
  qed
  have wa: "i64 (dx * dx + dy * dy) = a"
    unfolding a_def [symmetric] using a0 a1 by (intro i64_id) linarith+
  have wb: "i64 (x1 * dx + y1 * dy) = b"
    unfolding b_def [symmetric] using b1 by (intro i64_abs) linarith
  have wc: "i64 (x1 * x1 + y1 * y1 - rad * rad) = c"
    unfolding c_def [symmetric] using c1 by (intro i64_abs) linarith
  have wdd: "i64 (b * b - a * c) = d"
    unfolding d_def [symmetric] using d1 by (intro i64_abs) linarith
  have e0: "collisionXY x1 y1 x2 y2 rad =
      (if d < 0 then \<lparr>i_begin = -1, i_end = -1\<rparr>
       else if a = 0 then
         (if c < 0 then \<lparr>i_begin = 0, i_end = 1024\<rparr> else \<lparr>i_begin = -1, i_end = -1\<rparr>)
       else \<lparr>i_begin = i32 (max 0 (i64 (i64 (1024 * (- b - i32 (i64Sqrt d))) sdiv a))),
             i_end = i32 (min 1024 (i64 (i64 (1024 * (- b + i32 (i64Sqrt d))) sdiv a)))\<rparr>)"
    unfolding collisionXY_def Let_def wd wa wb wc wdd by (rule refl)
  show ?thesis
  proof (cases "d < 0 \<or> a = 0")
    case True
    then show ?thesis unfolding e0 by auto
  next
    case False
    then have dn: "0 \<le> d" and ap: "0 < a" using a0 by auto
    have s: "0 \<le> sd" "sd * sd \<le> d" using isqrt_int [OF dn] by (simp_all add: sd_def)
    have ws0: "i64Sqrt d = sd" using dn d1 by (simp add: sd_def i64Sqrt_nonneg)
    have a_le: "a \<le> a * a" using ap by (simp add: mult_le_cancel_left1)
    have cs: "b * b \<le> (x1 * x1 + y1 * y1) * a"
      unfolding b_def a_def by (rule cauchy_schwarz2)
    have b2: "\<bar>b\<bar> \<le> 32768 * a"
    proof (rule abs_le_of_square_le)
      have "(x1 * x1 + y1 * y1) * a \<le> 536870912 * a" using v1 a0 by (intro mult_right_mono) auto
      also have "\<dots> \<le> 536870912 * (a * a)" using a_le by simp
      finally have "b * b \<le> 536870912 * (a * a)" using cs by linarith
      moreover have "0 \<le> a * a" by simp
      ultimately have "b * b \<le> 1073741824 * (a * a)" by linarith
      then show "b * b \<le> 32768 * a * (32768 * a)" by (simp add: algebra_simps)
      show "0 \<le> 32768 * a" using a0 by simp
    qed
    have dr: "d \<le> a * (rad * rad)"
    proof -
      have "d = b * b - (x1 * x1 + y1 * y1) * a + a * (rad * rad)" by (simp add: d_def c_def algebra_simps)
      then show ?thesis using cs by linarith
    qed
    have s2: "sd \<le> 16384 * a"
    proof -
      have "a * (rad * rad) \<le> a * (16384 * 16384)" using sq(5) a0 by (intro mult_left_mono) auto
      also have "\<dots> \<le> (a * a) * (16384 * 16384)" using a_le by simp
      finally have "sd * sd \<le> 16384 * a * (16384 * a)" using s(2) dr by (simp add: algebra_simps)
      then have "\<bar>sd\<bar> \<le> 16384 * a" using a0 by (intro abs_le_of_square_le) auto
      then show ?thesis by simp
    qed
    have "d < 2147483648 * 2147483648" using d1 by simp
    then have s3: "sd < 2147483648" unfolding sd_def using dn by (intro isqrt_int_less) auto
    have ws: "i32 (i64Sqrt d) = sd" unfolding ws0 using s(1) s3 by (intro i32_id) auto
    have m1: "\<bar>1024 * (- b - sd)\<bar> \<le> 50331648 * a" using b2 s(1) s2 by (simp add: abs_le_iff)
    have m2: "\<bar>1024 * (- b + sd)\<bar> \<le> 50331648 * a" using b2 s(1) s2 by (simp add: abs_le_iff)
    have wm: "i64 (1024 * (- b - sd)) = 1024 * (- b - sd)" "i64 (1024 * (- b + sd)) = 1024 * (- b + sd)"
      using m1 m2 a1 by (auto intro!: i64_abs)
    have q1: "\<bar>(1024 * (- b - sd)) sdiv a\<bar> \<le> 50331648"
      using ap m1 by (rule abs_sdiv_le_of_le_mult)
    have q2: "\<bar>(1024 * (- b + sd)) sdiv a\<bar> \<le> 50331648"
      using ap m2 by (rule abs_sdiv_le_of_le_mult)
    have wq: "i64 ((1024 * (- b - sd)) sdiv a) = (1024 * (- b - sd)) sdiv a"
      "i64 ((1024 * (- b + sd)) sdiv a) = (1024 * (- b + sd)) sdiv a"
      using q1 q2 by (auto intro!: i64_abs)
    have wr: "i32 (max 0 ((1024 * (- b - sd)) sdiv a)) = max 0 ((1024 * (- b - sd)) sdiv a)"
      "i32 (min 1024 ((1024 * (- b + sd)) sdiv a)) = min 1024 ((1024 * (- b + sd)) sdiv a)"
      using q1 q2 by (auto intro!: i32_id)
    show ?thesis unfolding e0 ws wm wq wr ..
  qed
qed

lemma collisionXY_end_le:
  assumes "\<bar>x1\<bar> \<le> 16384" "\<bar>y1\<bar> \<le> 16384" "\<bar>x2\<bar> \<le> 16384" "\<bar>y2\<bar> \<le> 16384" "\<bar>rad\<bar> \<le> 16384"
  shows "i_end (collisionXY x1 y1 x2 y2 rad) \<le> 1024"
  unfolding collisionXY_in_range [OF assms] by simp

lemma intervalIntersection_begin_le:
  "i_begin i1 \<le> k \<Longrightarrow> i_begin i2 \<le> k \<Longrightarrow> i_begin (intervalIntersection i1 i2) \<le> k"
  by (simp add: intervalIntersection_def)

lemma intervalIntersection_end_le:
  "i_end i2 \<le> k \<Longrightarrow> i_end (intervalIntersection i1 i2) \<le> k"
  by (simp add: intervalIntersection_def min_le_iff_disj)

lemma collisionXYZ_cases:
  assumes v1: "\<bar>vec_x v1\<bar> \<le> 16384" "\<bar>vec_y v1\<bar> \<le> 16384" "\<bar>vec_z v1\<bar> \<le> 16384"
    and v2: "\<bar>vec_x v2\<bar> \<le> 16384" "\<bar>vec_y v2\<bar> \<le> 16384" "\<bar>vec_z v2\<bar> \<le> 16384"
    and sh: "\<bar>size_x shape\<bar> \<le> 16384" "\<bar>size_y shape\<bar> \<le> 16384" "\<bar>height\<bar> \<le> 16384"
  shows "collisionXYZ v1 v2 shape height = -1
   \<or> (\<exists>i :: INTERVAL. collisionXYZ v1 v2 shape height = max 0 (i_begin i) \<and> i_begin i \<le> 1024
          \<and> (\<not> isRectangular shape \<longrightarrow> i_begin i < i_end i \<and> i_end i \<le> 1024))"
proof -
  define iz where "iz = collisionZ (vec_z v1) (vec_z v2) height"
  define ix where "ix = intervalIntersection iz (collisionZ (vec_x v1) (vec_x v2) (size_x shape))"
  define iy where "iy = intervalIntersection ix (collisionZ (vec_y v1) (vec_y v2) (size_y shape))"
  define ic where "ic = intervalIntersection iz
      (collisionXY (vec_x v1) (vec_y v1) (vec_x v2) (vec_y v2) (radius shape))"
  define i' where "i' = (if isRectangular shape then (if \<not> intervalEmpty ix then iy else ix) else ic)"
  have r: "collisionXYZ v1 v2 shape height =
      (if \<not> intervalEmpty iz then (if \<not> intervalEmpty i' then max 0 (i_begin i') else -1) else -1)"
    unfolding collisionXYZ_def Let_def iz_def ix_def iy_def ic_def i'_def by (rule refl)
  have zb: "i_begin (collisionZ (vec_z v1) (vec_z v2) height) \<le> 1024"
    using v1(3) v2(3) sh(3) by (intro collisionZ_begin_le) auto
  have xb: "i_begin (collisionZ (vec_x v1) (vec_x v2) (size_x shape)) \<le> 1024"
    using v1(1) v2(1) sh(1) by (intro collisionZ_begin_le) auto
  have yb: "i_begin (collisionZ (vec_y v1) (vec_y v2) (size_y shape)) \<le> 1024"
    using v1(2) v2(2) sh(2) by (intro collisionZ_begin_le) auto
  have ce: "i_end (collisionXY (vec_x v1) (vec_y v1) (vec_x v2) (vec_y v2) (radius shape)) \<le> 1024"
    unfolding radius_def using v1(1,2) v2(1,2) sh(1) by (rule collisionXY_end_le)
  have bz: "i_begin iz \<le> 1024" unfolding iz_def by (rule zb)
  have bx: "i_begin ix \<le> 1024"
    unfolding ix_def by (rule intervalIntersection_begin_le [OF bz xb])
  have by': "i_begin iy \<le> 1024"
    unfolding iy_def by (rule intervalIntersection_begin_le [OF bx yb])
  have ec: "i_end ic \<le> 1024"
    unfolding ic_def by (rule intervalIntersection_end_le [OF ce])
  show ?thesis
  proof (cases "\<not> intervalEmpty iz \<and> \<not> intervalEmpty i'")
    case False
    then show ?thesis using r by auto
  next
    case True
    then have req: "collisionXYZ v1 v2 shape height = max 0 (i_begin i')" using r by simp
    have ne: "i_begin i' < i_end i'" using True by (simp add: intervalEmpty_def)
    show ?thesis
    proof (cases "isRectangular shape")
      case True
      then have "i_begin i' \<le> 1024" using bx by' by (simp add: i'_def)
      with req True show ?thesis by blast
    next
      case False
      then have ic: "i' = ic" by (simp add: i'_def)
      have "i_begin ic < 1024" using ne ec unfolding ic by linarith
      then have "i_begin i' \<le> 1024" "i_end i' \<le> 1024" using ec ic by simp_all
      with req ne show ?thesis by blast
    qed
  qed
qed

text \<open>
  C5, as the code has it.  For relative positions, target sizes and a target height of at most
  16384 in absolute value (14 bits, so that the 64-bit discriminant of the circle test and the
  32-bit products of the slab test do not overflow), \<open>collisionXYZ\<close> returns either \<open>-1\<close> (no
  collision) or a time of impact in the closed interval from 0 to 1024, where 1024 is the
  current sample itself; for a circular target the time is strictly below 1024.
\<close>

theorem collisionXYZ_range:
  assumes "\<bar>vec_x v1\<bar> \<le> 16384" "\<bar>vec_y v1\<bar> \<le> 16384" "\<bar>vec_z v1\<bar> \<le> 16384"
    and "\<bar>vec_x v2\<bar> \<le> 16384" "\<bar>vec_y v2\<bar> \<le> 16384" "\<bar>vec_z v2\<bar> \<le> 16384"
    and "\<bar>size_x shape\<bar> \<le> 16384" "\<bar>size_y shape\<bar> \<le> 16384" "\<bar>height\<bar> \<le> 16384"
  shows "(collisionXYZ v1 v2 shape height = -1
     \<or> (0 \<le> collisionXYZ v1 v2 shape height \<and> collisionXYZ v1 v2 shape height \<le> 1024))
   \<and> (\<not> isRectangular shape \<longrightarrow> collisionXYZ v1 v2 shape height < 1024)"
proof -
  note b = assms
  consider (none) "collisionXYZ v1 v2 shape height = -1"
    | (hit) i :: INTERVAL where "collisionXYZ v1 v2 shape height = max 0 (i_begin i)" "i_begin i \<le> 1024"
        "\<not> isRectangular shape \<longrightarrow> i_begin i < i_end i \<and> i_end i \<le> 1024"
    using collisionXYZ_cases [OF b] by blast
  then show ?thesis
  proof cases
    case none
    then show ?thesis by simp
  next
    case hit
    have "\<not> isRectangular shape \<longrightarrow> i_begin i < 1024" using hit(3) by linarith
    then show ?thesis using hit(1,2) by simp
  qed
qed

text \<open>
  A sphere of radius 20 and height 10 crossed along the y axis from -40 to 40: the entry time is
  a quarter of the tick.
\<close>

theorem collisionXYZ_range_witness:
  "\<bar>vec_y \<lparr>vec_x = 0, vec_y = -40, vec_z = 0\<rparr>\<bar> \<le> 16384
   \<and> \<bar>vec_y \<lparr>vec_x = 0, vec_y = 40, vec_z = 0\<rparr>\<bar> \<le> 16384
   \<and> \<bar>size_x \<lparr>isRectangular = False, size_x = 20, size_y = 20\<rparr>\<bar> \<le> 16384
   \<and> \<bar>10 :: int\<bar> \<le> 16384
   \<and> \<not> isRectangular \<lparr>isRectangular = False, size_x = 20, size_y = 20\<rparr>
   \<and> 0 \<le> collisionXYZ \<lparr>vec_x = 0, vec_y = -40, vec_z = 0\<rparr> \<lparr>vec_x = 0, vec_y = 40, vec_z = 0\<rparr>
        \<lparr>isRectangular = False, size_x = 20, size_y = 20\<rparr> 10
   \<and> collisionXYZ \<lparr>vec_x = 0, vec_y = -40, vec_z = 0\<rparr> \<lparr>vec_x = 0, vec_y = 40, vec_z = 0\<rparr>
        \<lparr>isRectangular = False, size_x = 20, size_y = 20\<rparr> 10 < 1024"
proof -
  have s: "sqrt_floor 2560000 = 1600" by (rule sqrt_floor_eqI; simp)
  have v: "collisionXYZ \<lparr>vec_x = 0, vec_y = -40, vec_z = 0\<rparr> \<lparr>vec_x = 0, vec_y = 40, vec_z = 0\<rparr>
        \<lparr>isRectangular = False, size_x = 20, size_y = 20\<rparr> 10 = 256"
    by (simp add: collisionXYZ_def collisionZ_def collisionXY_def intervalIntersection_def
        intervalEmpty_def radius_def Let_def i32_def i64_def u64_def i64Sqrt_def s)
  show ?thesis
    using collisionXYZ_range [of "\<lparr>vec_x = 0, vec_y = -40, vec_z = 0\<rparr>"
      "\<lparr>vec_x = 0, vec_y = 40, vec_z = 0\<rparr>"
      "\<lparr>isRectangular = False, size_x = 20, size_y = 20\<rparr>" 10] v
    by simp
qed

text \<open>
  C5, as the specification states it, fails twice.  A box target whose lower face is reached
  exactly at the current sample gives the time 1024, outside the half-open interval.  And "every
  target height" is too much: for a height of 2621439 and a sample at 1572863 the product
  \<open>1024 * (-height - z1)\<close> leaves the \<open>int32_t\<close> range, and the compiled code returns 2048.
\<close>

theorem collisionXYZ_half_open_counterexample:
  "collisionXYZ \<lparr>vec_x = 0, vec_y = 0, vec_z = -11\<rparr> \<lparr>vec_x = 1, vec_y = 1, vec_z = -10\<rparr>
          \<lparr>isRectangular = True, size_x = 5, size_y = 5\<rparr> 10 = 1024
   \<and> collisionXYZ \<lparr>vec_x = 0, vec_y = 0, vec_z = 1572863\<rparr> \<lparr>vec_x = 1, vec_y = 1, vec_z = 1572864\<rparr>
          \<lparr>isRectangular = True, size_x = 1048576, size_y = 1048576\<rparr> 2621439 = 2048"
  by (simp add: collisionXYZ_def collisionZ_def intervalIntersection_def intervalEmpty_def Let_def
      i32_def)

subsection \<open>The collision scan and the movement\<close>

lemma scanStep_skipped: "scanSkipped env w p ptr \<Longrightarrow> scanStep env w p closest ptr = closest"
  by (auto simp: scanStep_def scanSkipped_def Let_def)

lemma scanStep_object:
  "snd (scanStep env w p closest ptr) = snd closest
   \<or> (snd (scanStep env w p closest ptr) = Some ptr \<and> \<not> scanSkipped env w p ptr)"
  by (auto simp: scanStep_def scanSkipped_def Let_def)

lemma collisionScan_object:
  "snd (collisionScan env w p l closest) = snd closest
   \<or> (\<exists>ptr \<in> set l. snd (collisionScan env w p l closest) = Some ptr \<and> \<not> scanSkipped env w p ptr)"
proof (induction l arbitrary: closest)
  case Nil
  then show ?case by (simp add: collisionScan_def)
next
  case (Cons a l)
  have e: "collisionScan env w p (a # l) closest = collisionScan env w p l (scanStep env w p closest a)"
    by (simp add: collisionScan_def)
  show ?case
    using Cons.IH [of "scanStep env w p closest a"] scanStep_object [of env w p closest a]
    unfolding e by auto
qed

lemma closestCollision_object:
  "snd (closestCollision env w p) = Some obj \<Longrightarrow> \<not> scanSkipped env w p obj"
proof -
  assume a: "snd (closestCollision env w p) = Some obj"
  define start :: "Spacetime \<times> nat option"
    where "start = (\<lparr>st_time = 0xFFFFFFFF, st_pos = zeroVector, st_rot = zeroRotation\<rparr>, None)"
  define l where "l = gridStartIterate env w (vec_x (pos p)) (vec_y (pos p)) (PROJ_NEIGHBOUR_RANGE env)"
  have "snd (closestCollision env w p) = None \<or> snd (closestCollision env w p) = snd (collisionScan env w p l start)"
    by (simp add: closestCollision_def Let_def start_def l_def)
  with a have "snd (collisionScan env w p l start) = Some obj" by auto
  moreover have "snd start = None" by (simp add: start_def)
  ultimately show ?thesis using collisionScan_object [of env w p l start] by auto
qed

lemma sameIdentity_refl [simp]: "sameIdentity p p"
  by (simp add: sameIdentity_def)

lemma avoidTerrain_keeps:
  "avoidTerrain env n (p, d, t, s) = (p', d', t', s') \<Longrightarrow> sameIdentity p p'"
proof (induction n arbitrary: p d t s)
  case 0
  then show ?case by simp
next
  case (Suc n)
  show ?case
  proof (cases "uint (map_LineIntersect env (st_pos (prevSpacetime p)) (vec_add (pos p) s)
                 (word_of_int (iHypot3 env s))) < u32 (t - 1)")
    case False
    with Suc.prems show ?thesis by simp
  next
    case True
    define q where "q = p\<lparr>dst := (dst p)\<lparr>vec_z := i32 (vec_z (dst p)
        + iHypot env (vec_x (vec_sub (dst p) (pos p))) (vec_y (vec_sub (dst p) (pos p))))\<rparr>\<rparr>"
    from Suc.prems True obtain d2 t2 s2 where "avoidTerrain env n (q, d2, t2, s2) = (p', d', t', s')"
      by (simp add: Let_def q_def)
    then have "sameIdentity q p'" by (rule Suc.IH)
    then show ?thesis by (simp add: sameIdentity_def q_def)
  qed
qed

lemma homingAim_keeps: "homingAim env w p = Some p' \<Longrightarrow> sameIdentity p p'"
  by (auto simp: homingAim_def Let_def sameIdentity_def split: option.splits if_splits)

lemma homingAltitude_keeps: "sameIdentity p (homingAltitude env p dt)"
  by (simp add: homingAltitude_def Let_def sameIdentity_def)

lemma homingFly_keeps: "sameIdentity p (homingFly env p)"
proof -
  define delta where "delta = vec_sub (dst p) (pos p)"
  define td where "td = max (iHypot3 env delta) 1"
  define p3 where "p3 = (if psDest p = None \<and> td < 10000 \<and> movementModel (psWStats p) = MM_HOMINGDIRECT
                then p\<lparr>dst := vec_add (pos p) (vec_scale delta 10)\<rparr> else p)"
  define r where "r = (if movementModel (psWStats p) = MM_HOMINGINDIRECT \<and> psDest p3 \<noteq> None
               then avoidTerrain env 10 (p3, delta, td, homingStep env p3 delta td)
               else (p3, delta, td, homingStep env p3 delta td))"
  have 1: "sameIdentity p p3" by (simp add: p3_def sameIdentity_def)
  have 2: "sameIdentity p3 (fst r)"
  proof (cases "movementModel (psWStats p) = MM_HOMINGINDIRECT \<and> psDest p3 \<noteq> None")
    case True
    then have "avoidTerrain env 10 (p3, delta, td, homingStep env p3 delta td)
        = (fst r, fst (snd r), fst (snd (snd r)), snd (snd (snd r)))"
      by (simp add: r_def)
    then show ?thesis by (rule avoidTerrain_keeps)
  next
    case False
    then have "r = (p3, delta, td, homingStep env p3 delta td)" unfolding r_def by (rule if_not_P)
    then show ?thesis by simp
  qed
  have 3: "homingFly env p = (fst r)\<lparr>pos := vec_add (pos (fst r)) (snd (snd (snd r))),
            rot := (rot (fst r))\<lparr>direction := iAtan2 env (vec_x (fst (snd r))) (vec_y (fst (snd r))),
                            pitch := iAtan2 env (vec_z (fst (snd r))) (fst (snd (snd r)))\<rparr>\<rparr>"
    unfolding homingFly_def Let_def r_def p3_def td_def delta_def by (rule refl)
  show ?thesis using 1 2 unfolding 3 by (simp add: sameIdentity_def)
qed

lemma sameIdentity_trans: "sameIdentity p q \<Longrightarrow> sameIdentity q r \<Longrightarrow> sameIdentity p r"
  by (simp add: sameIdentity_def)

lemma projMovement_keeps:
  assumes "projMovement env w p ts dt = Some (p', cd)"
  shows "sameIdentity p p'"
proof (cases "movementModel (psWStats p)")
  case MM_DIRECT
  then show ?thesis using assms by (auto simp: projMovement_def Let_def sameIdentity_def)
next
  case MM_INDIRECT
  then show ?thesis using assms by (auto simp: projMovement_def Let_def sameIdentity_def)
next
  case MM_HOMINGDIRECT
  with assms obtain p1 where "homingAim env w p = Some p1" "p' = homingFly env p1"
    by (auto simp: projMovement_def Let_def split: option.splits)
  then show ?thesis using homingAim_keeps homingFly_keeps sameIdentity_trans by blast
next
  case MM_HOMINGINDIRECT
  with assms obtain p1 where "homingAim env w p = Some p1" "p' = homingFly env (homingAltitude env p1 dt)"
    by (auto simp: projMovement_def Let_def split: option.splits)
  then show ?thesis
    using sameIdentity_trans [OF homingAim_keeps [of env w p p1]
        sameIdentity_trans [OF homingAltitude_keeps [of p1 env dt] homingFly_keeps [of "homingAltitude env p1 dt" env]]]
    by simp
qed

lemma projMovement_distance:
  assumes "projMovement env w p ts dt = Some (p', cd)"
  shows "cd = (if movementModel (psWStats p) = MM_INDIRECT
               then i32 (i32 (ts * vXY p) sdiv GAME_TICKS_PER_SEC env)
               else i32 (u32 (ts * uint (flightSpeed (psWStats p))) div u32 (GAME_TICKS_PER_SEC env)))"
  using assms
  by (cases "movementModel (psWStats p)") (auto simp: projMovement_def Let_def split: option.splits)

subsection \<open>Destination bookkeeping and the spawn of a child\<close>

lemma setProjectileDestination_snd [simp]:
  "snd (setProjectileDestination w p x) = p\<lparr>psDest := x\<rparr>"
  by (simp add: setProjectileDestination_def Let_def)

lemma aiObjectAddExpectedDamage_fields [simp]:
  "gameTime (aiObjectAddExpectedDamage w x d b) = gameTime w"
  "deltaGameTime (aiObjectAddExpectedDamage w x d b) = deltaGameTime w"
  "bMultiPlayer (aiObjectAddExpectedDamage w x d b) = bMultiPlayer w"
  "gameRandState (aiObjectAddExpectedDamage w x d b) = gameRandState w"
  "projectileTrackerIDIncrement (aiObjectAddExpectedDamage w x d b) = projectileTrackerIDIncrement w"
  "otype (objects (aiObjectAddExpectedDamage w x d b) obj) = otype (objects w obj)"
  "died (objects (aiObjectAddExpectedDamage w x d b) obj) = died (objects w obj)"
  "player (objects (aiObjectAddExpectedDamage w x d b) obj) = player (objects w obj)"
  by (simp_all add: aiObjectAddExpectedDamage_def split: option.splits)

lemma aiObjectAddExpectedDamage_None [simp]: "aiObjectAddExpectedDamage w None d b = w"
  by (simp add: aiObjectAddExpectedDamage_def)

lemma setProjectileDestination_fields [simp]:
  "gameTime (fst (setProjectileDestination w p x)) = gameTime w"
  "deltaGameTime (fst (setProjectileDestination w p x)) = deltaGameTime w"
  "bMultiPlayer (fst (setProjectileDestination w p x)) = bMultiPlayer w"
  "gameRandState (fst (setProjectileDestination w p x)) = gameRandState w"
  "projectileTrackerIDIncrement (fst (setProjectileDestination w p x)) = projectileTrackerIDIncrement w"
  "otype (objects (fst (setProjectileDestination w p x)) obj) = otype (objects w obj)"
  "died (objects (fst (setProjectileDestination w p x)) obj) = died (objects w obj)"
  "player (objects (fst (setProjectileDestination w p x)) obj) = player (objects w obj)"
  by (simp_all add: setProjectileDestination_def Let_def)

lemma setProjectileDestination_None_None [simp]:
  "psDest p = None \<Longrightarrow> setProjectileDestination w p None = (w, p\<lparr>psDest := None\<rparr>)"
  by (simp add: setProjectileDestination_def Let_def)

lemma projCalcIndirectVelocities_returns:
  "iCos env ma \<noteq> 0 \<Longrightarrow> \<exists>t vx vz s. projCalcIndirectVelocities env seed dx dz v ma = Some ((t, vx, vz), s)"
  unfolding projCalcIndirectVelocities_def Let_def split_beta by (simp split: if_splits)

lemma child_spawn:
  assumes "proj_Direct stats \<or> iCos env 0 \<noteq> 0"
  shows "\<exists>w' c. proj_SendProjectileInternal env w (Some stats) (Some (AttackerProjectile par)) plr tgt None (- 1)
            = Some (w', Some c)
          \<and> born c = born par \<and> psDamaged c = psDamaged par \<and> pos c = pos par \<and> src c = src par
          \<and> dst c = tgt\<lparr>vec_z := i32 (vec_z tgt + LINE_OF_FIRE_MINIMUM env)\<rparr>
          \<and> psSource c = psSource par \<and> psWStats c = stats \<and> state c = PROJ_INFLIGHT
          \<and> psDest c = None \<and> player c = plr \<and> time c = gameTime w \<and> died c = 0
          \<and> obj_id c = ProjectileTrackerID + (projectileTrackerIDIncrement w + 1)"
proof (cases "proj_Direct stats")
  case True
  then show ?thesis
    by (simp add: proj_SendProjectileInternal_def proj_SendProjectileAngledInternal_def Let_def split_beta)
next
  case False
  with assms have c: "iCos env 0 \<noteq> 0" by simp
  let ?w1 = "w\<lparr>projectileTrackerIDIncrement := projectileTrackerIDIncrement w + 1\<rparr>"
  let ?d = "vec_sub (tgt\<lparr>vec_z := i32 (vec_z tgt + LINE_OF_FIRE_MINIMUM env)\<rparr>) (src par)"
  obtain t vx vz s where
    "projCalcIndirectVelocities env (gameRandState ?w1) (iHypot env (vec_x ?d) (vec_y ?d)) (vec_z ?d)
       (sint (flightSpeed stats)) 0 = Some ((t, vx, vz), s)"
    using projCalcIndirectVelocities_returns [OF c] by blast
  with False show ?thesis
    by (simp add: proj_SendProjectileInternal_def proj_SendProjectileAngledInternal_def Let_def split_beta)
qed

subsection \<open>The shape of an in-flight update\<close>

lemma proj_InFlightFunc_charging:
  "lasSatCharging env w p0 \<Longrightarrow> proj_InFlightFunc env w p0 = Some (w, p0\<lparr>time := gameTime w\<rparr>, None)"
  by (simp add: proj_InFlightFunc_def lasSatCharging_def Let_def)

lemma proj_InFlightFunc_trap:
  "\<not> lasSatCharging env w p0 \<Longrightarrow> inFlightMovement env w p0 = None \<Longrightarrow> proj_InFlightFunc env w p0 = None"
  by (simp add: proj_InFlightFunc_def lasSatCharging_def inFlightMovement_def Let_def)

lemma proj_InFlightFunc_moved:
  assumes "\<not> lasSatCharging env w p0" and "inFlightMovement env w p0 = Some (p, cd)"
  shows "proj_InFlightFunc env w p0 =
     (if st_time (fst (closestCollision env w p)) \<noteq> 0xFFFFFFFF then
        registerHit env w p cd (fst (closestCollision env w p)) (snd (closestCollision env w p))
      else if i32 (cd * 100)
               \<ge> i32 (proj_GetLongRange env (psWStats p0) (player p) * distanceExtensionFactor (psWStats p0))
      then Some (fst (setProjectileDestination w (p\<lparr>state := PROJ_IMPACT\<rparr>) None),
                 snd (setProjectileDestination w (p\<lparr>state := PROJ_IMPACT\<rparr>) None), None)
      else Some (w, p, None))"
proof -
  have g: "\<not> (bMultiPlayer w \<and> weaponSubClass (psWStats p0) = WSC_LAS_SAT
            \<and> gameTime w - born p0 < word_of_int (LAS_SAT_DELAY * GAME_TICKS_PER_SEC env))"
    using assms(1) unfolding lasSatCharging_def .
  have m: "projMovement env w (p0\<lparr>time := gameTime w\<rparr>) (sint (gameTime w - born p0))
       (sint (gameTime w - st_time (prevSpacetime p0))) = Some (p, cd)"
    using assms(2) unfolding inFlightMovement_def .
  show ?thesis
    using g m by (auto simp: proj_InFlightFunc_def Let_def split_beta)
qed

lemma inFlightMovement_keeps:
  assumes "inFlightMovement env w p0 = Some (p, cd)"
  shows "psDamaged p = psDamaged p0" "psDest p = psDest p0" "psSource p = psSource p0"
    "player p = player p0" "psWStats p = psWStats p0" "state p = state p0" "born p = born p0"
    "expectedDamageCaused p = expectedDamageCaused p0" "src p = src p0" "time p = gameTime w"
    "prevSpacetime p = prevSpacetime p0"
  using projMovement_keeps [OF assms [unfolded inFlightMovement_def]]
  by (simp_all add: sameIdentity_def)

lemma inFlightMovement_distance:
  assumes "inFlightMovement env w p0 = Some (p, cd)"
  shows "cd = (if movementModel (psWStats p0) = MM_INDIRECT
               then i32 (i32 (sint (gameTime w - born p0) * vXY p0) sdiv GAME_TICKS_PER_SEC env)
               else i32 (u32 (sint (gameTime w - born p0) * uint (flightSpeed (psWStats p0)))
                           div u32 (GAME_TICKS_PER_SEC env)))"
  using projMovement_distance [OF assms [unfolded inFlightMovement_def]] by simp

lemma registerHit_result:
  assumes "registerHit env w p cd cst cobj = Some (w', p', sp)"
  shows "state p' = PROJ_IMPACT" "psDest p' = cobj"
  using assms
  by (auto simp: registerHit_def Let_def split_beta split: option.splits if_splits)

lemma registerHit_plain:
  assumes "\<not> (\<exists>obj. cobj = Some obj \<and> otype (objects w obj) = OBJ_DROID \<and> penetrate (psWStats p)
              \<and> cd < (5 * proj_GetLongRange env (psWStats p) (player p)) sdiv 4)"
  shows "\<exists>w' p'. registerHit env w p cd cst cobj = Some (w', p', None)"
  using assms
  by (auto simp: registerHit_def Let_def split_beta setSpacetime_def split: option.splits)

lemma registerHit_spawn:
  assumes "otype (objects w obj) = OBJ_DROID" "penetrate (psWStats p)"
    "cd < (5 * proj_GetLongRange env (psWStats p) (player p)) sdiv 4"
    "proj_Direct (psWStats p) \<or> iCos env 0 \<noteq> 0"
  shows "\<exists>w' p' c. registerHit env w p cd cst (Some obj) = Some (w', p', Some c)
      \<and> state p' = PROJ_IMPACT \<and> psDest p' = Some obj \<and> psDamaged p' = psDamaged p @ [obj]
      \<and> born c = born p \<and> psDamaged c = psDamaged p @ [obj] \<and> pos c = st_pos cst \<and> pos p' = st_pos cst
      \<and> src c = src p \<and> dst c = (dst p)\<lparr>vec_z := i32 (vec_z (dst p) + LINE_OF_FIRE_MINIMUM env)\<rparr>
      \<and> psSource c = psSource p \<and> psWStats c = psWStats p \<and> state c = PROJ_INFLIGHT
      \<and> psDest c = None \<and> player c = player p \<and> died c = 0"
proof -
  define p1 where "p1 = setSpacetime p cst"
  define p2 where "p2 = p1\<lparr>time := max (time p1) (gameTime w - deltaGameTime w + 1)\<rparr>"
  define p3 where "p3 = (if time p2 = st_time (prevSpacetime p2)
                then p2\<lparr>prevSpacetime := (prevSpacetime p2)\<lparr>st_time := st_time (prevSpacetime p2) - 1\<rparr>\<rparr>
                else p2)"
  define w1 where "w1 = fst (setProjectileDestination w p3 (Some obj))"
  define p5 where "p5 = p3\<lparr>psDest := Some obj, psDamaged := psDamaged p3 @ [obj]\<rparr>"
  have f: "psWStats p5 = psWStats p" "player p5 = player p" "psDamaged p5 = psDamaged p @ [obj]"
    "pos p5 = st_pos cst" "born p5 = born p" "src p5 = src p" "dst p5 = dst p" "psSource p5 = psSource p"
    "psDest p5 = Some obj"
    by (simp_all add: p5_def p3_def p2_def p1_def setSpacetime_def)
  have d: "proj_Direct (psWStats p5) \<or> iCos env 0 \<noteq> 0" using assms(4) f(1) by simp
  obtain w2 c where c: "proj_SendProjectileInternal env w1 (Some (psWStats p5)) (Some (AttackerProjectile p5))
            (player p5) (dst p5) None (- 1) = Some (w2, Some c)"
    "born c = born p5" "psDamaged c = psDamaged p5" "pos c = pos p5" "src c = src p5"
    "dst c = (dst p5)\<lparr>vec_z := i32 (vec_z (dst p5) + LINE_OF_FIRE_MINIMUM env)\<rparr>"
    "psSource c = psSource p5" "psWStats c = psWStats p5" "state c = PROJ_INFLIGHT"
    "psDest c = None" "player c = player p5" "died c = 0"
    using child_spawn [OF d, of w1 p5 "player p5" "dst p5"] by blast
  have r: "registerHit env w p cd cst (Some obj) = Some (w2, p5\<lparr>state := PROJ_IMPACT\<rparr>, Some c)"
    using assms(1-3) c(1) f(1,2)
    unfolding registerHit_def Let_def split_beta
    unfolding p1_def [symmetric]
    unfolding p2_def [symmetric]
    unfolding p3_def [symmetric]
    by (simp add: w1_def p5_def)
  show ?thesis using r c(2-) f by simp
qed

lemma sdiv_nonneg_eq_div: "0 \<le> a \<Longrightarrow> 0 < b \<Longrightarrow> a sdiv b = a div (b::int)"
  by (simp add: signed_divide_int_def sgn_if)

subsection \<open>The in-flight update on the test world\<close>

lemma sqrt_floor_values: "sqrt_floor 4000000 = 2000" "sqrt_floor 16000000 = 4000"
  by (rule sqrt_floor_eqI; simp)+

lemma testProjectile_moves:
  "inFlightMovement testEnv testWorld testProjectile
     = Some (testProjectile\<lparr>pos := \<lparr>vec_x = 5100, vec_y = 5000, vec_z = 10\<rparr>, time := 1100\<rparr>, 1100)"
  by (simp add: inFlightMovement_def projMovement_def testEnv_def testWorld_def testProjectile_def
      testStats_def Let_def vec_sub_def vec_add_def vec_muldiv_def i32_def u32_def u64_def
      i64Sqrt_def sqrt_floor_values)

lemma testProjectile_not_charging [simp]: "\<not> lasSatCharging testEnv w testProjectile"
  by (simp add: lasSatCharging_def testProjectile_def testStats_def)

lemma testGrid_near:
  "testGrid testWorld 5100 5000 512 = [0, 1, 2]"
  by (simp add: testGrid_def testWorld_def testObjects_def testObject_def)

lemma test_collision:
  "collisionXYZ \<lparr>vec_x = -100, vec_y = 0, vec_z = 10\<rparr> \<lparr>vec_x = 100, vec_y = 0, vec_z = 10\<rparr>
      \<lparr>isRectangular = False, size_x = 20, size_y = 20\<rparr> 20 = 409"
  by (simp add: collisionXYZ_def collisionZ_def collisionXY_def intervalIntersection_def
      intervalEmpty_def Let_def radius_def i64Sqrt_def i32_def i64_def u64_def sqrt_floor_values)

lemma test_collision2:
  "collisionXYZ \<lparr>vec_x = -100, vec_y = -200, vec_z = 10\<rparr> \<lparr>vec_x = 100, vec_y = -200, vec_z = 10\<rparr>
      \<lparr>isRectangular = False, size_x = 20, size_y = 20\<rparr> 20 = -1"
  by (simp add: collisionXYZ_def collisionZ_def collisionXY_def intervalIntersection_def
      intervalEmpty_def Let_def radius_def i32_def i64_def)

lemma test_collision3:
  "collisionXYZ \<lparr>vec_x = -100, vec_y = -400, vec_z = 10\<rparr> \<lparr>vec_x = 100, vec_y = -400, vec_z = 10\<rparr>
      \<lparr>isRectangular = False, size_x = 20, size_y = 20\<rparr> 20 = -1"
  by (simp add: collisionXYZ_def collisionZ_def collisionXY_def intervalIntersection_def
      intervalEmpty_def Let_def radius_def i32_def i64_def)

lemma test_closest:
  "closestCollision testEnv testWorld
      (testProjectile\<lparr>pos := \<lparr>vec_x = 5100, vec_y = 5000, vec_z = 10\<rparr>, time := 1100\<rparr>)
     = (\<lparr>st_time = 979, st_pos = \<lparr>vec_x = 4900, vec_y = 5000, vec_z = 10\<rparr>, st_rot = zeroRotation\<rparr>, Some 0)"
  apply (simp add: closestCollision_def Let_def PROJ_NEIGHBOUR_RANGE_def)
  apply (simp add: testEnv_def testGrid_near)
  apply (simp add: collisionScan_def scanStep_def Let_def testProjectile_def testWorld_def testObjects_def
     testObject_def testStats_def vec_sub_def i32_def test_collision test_collision2 test_collision3)
  done

lemma scanSkipped_geometry [simp]:
  "scanSkipped (env\<lparr>establishTargetHeight := h, establishTargetShape := s\<rparr>) w p ptr = scanSkipped env w p ptr"
  by (simp add: scanSkipped_def)

lemma scanSkipped_moved:
  "psDamaged q = psDamaged p \<Longrightarrow> psDest q = psDest p \<Longrightarrow> player q = player p
    \<Longrightarrow> scanSkipped env w q ptr = scanSkipped env w p ptr"
  by (simp add: scanSkipped_def)

lemma inflight_registered_object:
  assumes "state p0 = PROJ_INFLIGHT" and "proj_InFlightFunc env w p0 = Some (w', p', sp)"
    and "state p' = PROJ_IMPACT" and "psDest p' = Some obj"
  shows "\<not> scanSkipped env w p0 obj"
proof (cases "lasSatCharging env w p0")
  case True
  then have "p' = p0\<lparr>time := gameTime w\<rparr>" using assms(2) by (auto simp: proj_InFlightFunc_charging)
  then have "state p' = PROJ_INFLIGHT" using assms(1) by simp
  then show ?thesis using assms(3) by simp
next
  case False
  show ?thesis
  proof (cases "inFlightMovement env w p0")
    case None
    then show ?thesis using False assms(2) by (simp add: proj_InFlightFunc_trap)
  next
    case (Some r)
    obtain p cd where r: "inFlightMovement env w p0 = Some (p, cd)" using Some by (cases r) auto
    note k = inFlightMovement_keeps [OF r]
    note e = proj_InFlightFunc_moved [OF False r]
    show ?thesis
    proof (cases "st_time (fst (closestCollision env w p)) \<noteq> 0xFFFFFFFF")
      case True
      then have "registerHit env w p cd (fst (closestCollision env w p)) (snd (closestCollision env w p))
          = Some (w', p', sp)" using e assms(2) by simp
      then have "snd (closestCollision env w p) = Some obj"
        using registerHit_result(2) assms(4) by metis
      then have "\<not> scanSkipped env w p obj" by (rule closestCollision_object)
      then show ?thesis using scanSkipped_moved [of p p0] k by simp
    next
      case False
      then show ?thesis using e assms k by (auto split: if_splits)
    qed
  qed
qed

text \<open>
  C10.  The scan of \<open>proj_InFlightFunc\<close> passes over an object that is on the projectile's
  damaged-list, dead, a feature that cannot be damaged, or allied and not the destination,
  whatever the height and shape of the object are: the turn of the loop leaves the closest
  collision as it was for every \<open>establishTargetHeight\<close> and \<open>establishTargetShape\<close>.  And when an
  in-flight update registers a collision with an object (the state becomes \<open>PROJ_IMPACT\<close> and
  the object the destination), the object is none of those.
\<close>

theorem inflight_scan_skips:
  "(scanSkipped env w p ptr \<longrightarrow>
      scanStep (env\<lparr>establishTargetHeight := h, establishTargetShape := s\<rparr>) w p closest ptr = closest)
   \<and> (state p0 = PROJ_INFLIGHT \<and> proj_InFlightFunc env w p0 = Some (w', p', sp)
        \<and> state p' = PROJ_IMPACT \<and> psDest p' = Some obj \<longrightarrow>
        obj \<notin> set (psDamaged p0) \<and> died (objects w obj) = 0
        \<and> \<not> (otype (objects w obj) = OBJ_FEATURE \<and> \<not> damageable (objects w obj))
        \<and> (aiCheckAlliances env (player (objects w obj)) (player p0) \<longrightarrow> psDest p0 = Some obj))"
proof -
  have 1: "scanSkipped env w p ptr \<longrightarrow>
      scanStep (env\<lparr>establishTargetHeight := h, establishTargetShape := s\<rparr>) w p closest ptr = closest"
    using scanStep_skipped [of "env\<lparr>establishTargetHeight := h, establishTargetShape := s\<rparr>" w p ptr closest]
    by simp
  have 2: "state p0 = PROJ_INFLIGHT \<and> proj_InFlightFunc env w p0 = Some (w', p', sp)
        \<and> state p' = PROJ_IMPACT \<and> psDest p' = Some obj \<longrightarrow>
        obj \<notin> set (psDamaged p0) \<and> died (objects w obj) = 0
        \<and> \<not> (otype (objects w obj) = OBJ_FEATURE \<and> \<not> damageable (objects w obj))
        \<and> (aiCheckAlliances env (player (objects w obj)) (player p0) \<longrightarrow> psDest p0 = Some obj)"
    using inflight_registered_object [of p0 env w w' p' sp obj]
    by (auto simp: scanSkipped_def)
  show ?thesis using 1 2 by blast
qed

lemma testProjectile_hits:
  "\<exists>w' p' c. proj_InFlightFunc testEnv testWorld testProjectile = Some (w', p', Some c)
      \<and> state p' = PROJ_IMPACT \<and> psDest p' = Some 0 \<and> psDamaged p' = [0]
      \<and> born c = born testProjectile \<and> psDamaged c = [0]
      \<and> pos c = \<lparr>vec_x = 4900, vec_y = 5000, vec_z = 10\<rparr> \<and> pos p' = pos c
      \<and> src c = src testProjectile \<and> dst c = \<lparr>vec_x = 6000, vec_y = 5000, vec_z = 15\<rparr>
      \<and> psSource c = None \<and> psWStats c = testStats \<and> state c = PROJ_INFLIGHT \<and> psDest c = None
      \<and> player c = 0 \<and> died c = 0"
proof -
  let ?p = "testProjectile\<lparr>pos := \<lparr>vec_x = 5100, vec_y = 5000, vec_z = 10\<rparr>, time := 1100\<rparr>"
  let ?cst = "\<lparr>st_time = 979, st_pos = \<lparr>vec_x = 4900, vec_y = 5000, vec_z = 10\<rparr>, st_rot = zeroRotation\<rparr>"
  have e: "proj_InFlightFunc testEnv testWorld testProjectile = registerHit testEnv testWorld ?p 1100 ?cst (Some 0)"
    using proj_InFlightFunc_moved [OF testProjectile_not_charging testProjectile_moves]
    by (simp add: test_closest)
  have h: "otype (objects testWorld 0) = OBJ_DROID" "penetrate (psWStats ?p)"
    "1100 < (5 * proj_GetLongRange testEnv (psWStats ?p) (player ?p)) sdiv 4"
    "proj_Direct (psWStats ?p) \<or> iCos testEnv 0 \<noteq> 0"
    by (simp_all add: testWorld_def testObjects_def testObject_def testProjectile_def testStats_def
        proj_GetLongRange_def testEnv_def proj_Direct_def)
  have l: "LINE_OF_FIRE_MINIMUM testEnv = 5" by (simp add: testEnv_def)
  obtain w' p' c where r: "registerHit testEnv testWorld ?p 1100 ?cst (Some 0) = Some (w', p', Some c)"
      "state p' = PROJ_IMPACT" "psDest p' = Some 0" "psDamaged p' = psDamaged ?p @ [0]"
      "born c = born ?p" "psDamaged c = psDamaged ?p @ [0]" "pos c = st_pos ?cst" "pos p' = st_pos ?cst"
      "src c = src ?p" "dst c = (dst ?p)\<lparr>vec_z := i32 (vec_z (dst ?p) + LINE_OF_FIRE_MINIMUM testEnv)\<rparr>"
      "psSource c = psSource ?p" "psWStats c = psWStats ?p" "state c = PROJ_INFLIGHT"
      "psDest c = None" "player c = player ?p" "died c = 0"
    using registerHit_spawn [OF h, of ?cst] by blast
  have "proj_InFlightFunc testEnv testWorld testProjectile = Some (w', p', Some c)"
    using e r(1) by simp
  moreover have "psDamaged p' = [0]" "born c = born testProjectile" "psDamaged c = [0]"
    "pos c = \<lparr>vec_x = 4900, vec_y = 5000, vec_z = 10\<rparr>" "pos p' = pos c"
    "src c = src testProjectile" "dst c = \<lparr>vec_x = 6000, vec_y = 5000, vec_z = 15\<rparr>"
    "psSource c = None" "psWStats c = testStats" "player c = 0"
    using r(4-12,15) l by (simp_all add: testProjectile_def i32_def)
  ultimately show ?thesis using r(2,3,13,14,16) by blast
qed


text \<open>
  The test shot meets droid 0 of the other player; with droid 0 on its damaged-list the scan
  passes over it.
\<close>

theorem inflight_scan_skips_witness:
  "\<exists>w' p' sp.
     scanSkipped testEnv testWorld (testProjectile\<lparr>psDamaged := [0]\<rparr>) 0
     \<and> scanStep (testEnv\<lparr>establishTargetHeight := (\<lambda>w obj. 20),
                            establishTargetShape := (\<lambda>obj. \<lparr>isRectangular = True, size_x = 64, size_y = 64\<rparr>)\<rparr>)
          testWorld (testProjectile\<lparr>psDamaged := [0]\<rparr>) (getSpacetime testProjectile, None) 0
         = (getSpacetime testProjectile, None)
     \<and> state testProjectile = PROJ_INFLIGHT
     \<and> proj_InFlightFunc testEnv testWorld testProjectile = Some (w', p', sp)
     \<and> state p' = PROJ_IMPACT \<and> psDest p' = Some 0
     \<and> 0 \<notin> set (psDamaged testProjectile) \<and> died (objects testWorld 0) = 0
     \<and> \<not> (otype (objects testWorld 0) = OBJ_FEATURE \<and> \<not> damageable (objects testWorld 0))
     \<and> \<not> aiCheckAlliances testEnv (player (objects testWorld 0)) (player testProjectile)"
proof -
  obtain w' p' c where r: "proj_InFlightFunc testEnv testWorld testProjectile = Some (w', p', Some c)"
    "state p' = PROJ_IMPACT" "psDest p' = Some 0"
    using testProjectile_hits by blast
  have s: "scanSkipped testEnv testWorld (testProjectile\<lparr>psDamaged := [0]\<rparr>) 0"
    by (simp add: scanSkipped_def)
  have i: "state testProjectile = PROJ_INFLIGHT" by (simp add: testProjectile_def)
  have a: "\<not> aiCheckAlliances testEnv (player (objects testWorld 0)) (player testProjectile)"
    by (simp add: testEnv_def testWorld_def testObjects_def testObject_def testProjectile_def)
  show ?thesis
    using inflight_scan_skips [where env = testEnv and w = testWorld
        and p = "testProjectile\<lparr>psDamaged := [0]\<rparr>" and ptr = 0
        and h = "\<lambda>w obj. 20" and s = "\<lambda>obj. \<lparr>isRectangular = True, size_x = 64, size_y = 64\<rparr>"
        and closest = "(getSpacetime testProjectile, None)" and ?p0.0 = testProjectile
        and w' = w' and p' = p' and sp = "Some c" and obj = 0] s i r a
    by blast
qed

text \<open>
  C6, as the code has it.  Outside the Las-Sat delay, when the movement switch has run and the
  tick has found no collision, \<open>proj_InFlightFunc\<close> returns, with no child.  For a projectile
  born no later than the current game time, and as long as the product of the flight time and
  the speed, a hundred times the distance, and \<open>longRange * distanceExtensionFactor\<close> fit 31
  bits, the distance travelled is the flight time multiplied by the speed, in ticks per second;
  if a hundred times that distance has reached \<open>longRange * distanceExtensionFactor\<close> the
  destination is none and the state is \<open>PROJ_IMPACT\<close>, otherwise state, destination and world
  are as before.
\<close>

theorem inflight_range_limit:
  fixes env w p0
  defines "timeSoFar \<equiv> sint (gameTime w - born p0)"
  defines "speed \<equiv> (if movementModel (psWStats p0) = MM_INDIRECT then vXY p0
                     else uint (flightSpeed (psWStats p0)))"
  defines "limit \<equiv> proj_GetLongRange env (psWStats p0) (player p0) * distanceExtensionFactor (psWStats p0)"
  assumes "\<not> lasSatCharging env w p0" and "inFlightMovement env w p0 = Some (p, currentDistance)"
    and "st_time (fst (closestCollision env w p)) = 0xFFFFFFFF"
    and "0 < GAME_TICKS_PER_SEC env" and "GAME_TICKS_PER_SEC env < 2147483648"
    and "0 \<le> timeSoFar" and "0 \<le> speed" and "timeSoFar * speed < 2147483648"
    and "(timeSoFar * speed) div GAME_TICKS_PER_SEC env * 100 < 2147483648"
    and "\<bar>limit\<bar> < 2147483648"
  shows "currentDistance = (timeSoFar * speed) div GAME_TICKS_PER_SEC env
    \<and> (\<exists>w' p'. proj_InFlightFunc env w p0 = Some (w', p', None)
          \<and> (if currentDistance * 100 \<ge> limit
              then psDest p' = None \<and> state p' = PROJ_IMPACT
              else state p' = state p0 \<and> psDest p' = psDest p0 \<and> w' = w))"
proof -
  define T where "T = GAME_TICKS_PER_SEC env"
  note k = inFlightMovement_keeps [OF assms(5)]
  have n: "0 \<le> timeSoFar * speed" using assms(9,10) by simp
  have q: "0 \<le> (timeSoFar * speed) div T" "(timeSoFar * speed) div T \<le> timeSoFar * speed"
    using n assms(7) zdiv_mono2 [of "timeSoFar * speed" 1 T]
    by (simp_all add: T_def pos_imp_zdiv_nonneg_iff)
  have cd: "currentDistance = (timeSoFar * speed) div T"
  proof (cases "movementModel (psWStats p0) = MM_INDIRECT")
    case True
    then have s: "speed = vXY p0" by (simp add: speed_def)
    have "currentDistance = i32 (i32 (timeSoFar * speed) sdiv T)"
      using inFlightMovement_distance [OF assms(5)] True by (simp add: timeSoFar_def s T_def)
    also have "i32 (timeSoFar * speed) = timeSoFar * speed" using n assms(11) by (intro i32_id) auto
    also have "(timeSoFar * speed) sdiv T = (timeSoFar * speed) div T"
      using n assms(7) by (simp add: sdiv_nonneg_eq_div T_def)
    also have "i32 ((timeSoFar * speed) div T) = (timeSoFar * speed) div T"
      using q assms(11) by (intro i32_id) auto
    finally show ?thesis .
  next
    case False
    then have s: "speed = uint (flightSpeed (psWStats p0))" by (simp add: speed_def)
    have "currentDistance = i32 (u32 (timeSoFar * speed) div u32 T)"
      using inFlightMovement_distance [OF assms(5)] False by (simp add: timeSoFar_def s T_def)
    also have "u32 (timeSoFar * speed) = timeSoFar * speed" using n assms(11) by (intro u32_id) auto
    also have "u32 T = T" using assms(7,8) by (intro u32_id) (auto simp: T_def)
    also have "i32 ((timeSoFar * speed) div T) = (timeSoFar * speed) div T"
      using q assms(11) by (intro i32_id) auto
    finally show ?thesis .
  qed
  have c100: "i32 (currentDistance * 100) = currentDistance * 100"
    using q(1) assms(12) unfolding cd T_def by (intro i32_id) auto
  have lim: "i32 (proj_GetLongRange env (psWStats p0) (player p) * distanceExtensionFactor (psWStats p0)) = limit"
    unfolding k(4) limit_def [symmetric] using assms(13) by (rule i32_abs)
  have "proj_InFlightFunc env w p0 =
      (if currentDistance * 100 \<ge> limit
       then Some (fst (setProjectileDestination w (p\<lparr>state := PROJ_IMPACT\<rparr>) None),
                 snd (setProjectileDestination w (p\<lparr>state := PROJ_IMPACT\<rparr>) None), None)
       else Some (w, p, None))"
    using proj_InFlightFunc_moved [OF assms(4,5)] assms(6) unfolding c100 lim by simp
  then have "\<exists>w' p'. proj_InFlightFunc env w p0 = Some (w', p', None)
          \<and> (if currentDistance * 100 \<ge> limit
              then psDest p' = None \<and> state p' = PROJ_IMPACT
              else state p' = state p0 \<and> psDest p' = psDest p0 \<and> w' = w)"
    using k by simp
  then show ?thesis using cd unfolding T_def by blast
qed

lemma testMiss_not_charging [simp]: "\<not> lasSatCharging testEnv w testMiss"
  by (simp add: lasSatCharging_def testMiss_def testProjectile_def testStats_def)

lemma testMiss_moves:
  "inFlightMovement testEnv (testWorld\<lparr>gameTime := 1100\<rparr>) testMiss
     = Some (testMiss\<lparr>pos := \<lparr>vec_x = 5100, vec_y = 1000, vec_z = 10\<rparr>, time := 1100\<rparr>, 1100)"
  "inFlightMovement testEnv (testWorld\<lparr>gameTime := 3000\<rparr>) testMiss
     = Some (testMiss\<lparr>pos := \<lparr>vec_x = 7000, vec_y = 1000, vec_z = 10\<rparr>, time := 3000\<rparr>, 3000)"
  by (simp_all add: inFlightMovement_def projMovement_def testEnv_def testWorld_def testMiss_def testProjectile_def
      testStats_def Let_def vec_sub_def vec_add_def vec_muldiv_def i32_def u32_def u64_def i64Sqrt_def
      sqrt_floor_values)

lemma testMiss_no_collision:
  "closestCollision testEnv (testWorld\<lparr>gameTime := t\<rparr>)
      (testMiss\<lparr>pos := \<lparr>vec_x = x, vec_y = 1000, vec_z = 10\<rparr>, time := t\<rparr>)
     = (\<lparr>st_time = 0xFFFFFFFF, st_pos = zeroVector, st_rot = zeroRotation\<rparr>, None)"
  by (simp add: closestCollision_def Let_def PROJ_NEIGHBOUR_RANGE_def testEnv_def testGrid_def
      testWorld_def testObjects_def testObject_def collisionScan_def)

text \<open>
  At time 1100 the shot that meets nothing has travelled 1100 of the 3000 units it may.
\<close>

theorem inflight_range_limit_witness:
  "\<not> lasSatCharging testEnv testWorld testMiss
   \<and> inFlightMovement testEnv testWorld testMiss
       = Some (testMiss\<lparr>pos := \<lparr>vec_x = 5100, vec_y = 1000, vec_z = 10\<rparr>, time := 1100\<rparr>, 1100)
   \<and> st_time (fst (closestCollision testEnv testWorld
         (testMiss\<lparr>pos := \<lparr>vec_x = 5100, vec_y = 1000, vec_z = 10\<rparr>, time := 1100\<rparr>))) = 0xFFFFFFFF
   \<and> sint (gameTime testWorld - born testMiss) = 1100
   \<and> uint (flightSpeed (psWStats testMiss)) = 1000
   \<and> GAME_TICKS_PER_SEC testEnv = 1000
   \<and> proj_GetLongRange testEnv (psWStats testMiss) (player testMiss)
         * distanceExtensionFactor (psWStats testMiss) = 300000
   \<and> (1100 :: int) = (1100 * 1000) div 1000
   \<and> (\<exists>p'. proj_InFlightFunc testEnv testWorld testMiss = Some (testWorld, p', None)
          \<and> state p' = PROJ_INFLIGHT \<and> psDest p' = None)"
proof -
  have w: "testWorld\<lparr>gameTime := 1100\<rparr> = testWorld" by (simp add: testWorld_def)
  have m: "inFlightMovement testEnv testWorld testMiss
       = Some (testMiss\<lparr>pos := \<lparr>vec_x = 5100, vec_y = 1000, vec_z = 10\<rparr>, time := 1100\<rparr>, 1100)"
    using testMiss_moves(1) unfolding w by simp
  have c: "st_time (fst (closestCollision testEnv testWorld
         (testMiss\<lparr>pos := \<lparr>vec_x = 5100, vec_y = 1000, vec_z = 10\<rparr>, time := 1100\<rparr>))) = 0xFFFFFFFF"
    using testMiss_no_collision [of 1100 5100] unfolding w by simp
  have r: "sint (gameTime testWorld - born testMiss) = 1100"
    "uint (flightSpeed (psWStats testMiss)) = 1000"
    "GAME_TICKS_PER_SEC testEnv = 1000"
    "proj_GetLongRange testEnv (psWStats testMiss) (player testMiss)
         * distanceExtensionFactor (psWStats testMiss) = 300000"
    "movementModel (psWStats testMiss) = MM_DIRECT"
    "state testMiss = PROJ_INFLIGHT" "psDest testMiss = None"
    by (simp_all add: proj_GetLongRange_def testMiss_def testProjectile_def testStats_def testEnv_def
        testWorld_def)
  show ?thesis
    using inflight_range_limit [OF testMiss_not_charging m c] m c r by auto
qed

text \<open>
  C6, as the specification states it, fails at the limit itself: at time 3000 the distance is
  3000, which does not exceed \<open>2000 * 150 / 100\<close>, and the shot is forced to miss.
\<close>

theorem inflight_range_limit_counterexample:
  "\<not> lasSatCharging testEnv (testWorld\<lparr>gameTime := 3000\<rparr>) testMiss
   \<and> inFlightMovement testEnv (testWorld\<lparr>gameTime := 3000\<rparr>) testMiss
       = Some (testMiss\<lparr>pos := \<lparr>vec_x = 7000, vec_y = 1000, vec_z = 10\<rparr>, time := 3000\<rparr>, 3000)
   \<and> st_time (fst (closestCollision testEnv (testWorld\<lparr>gameTime := 3000\<rparr>)
         (testMiss\<lparr>pos := \<lparr>vec_x = 7000, vec_y = 1000, vec_z = 10\<rparr>, time := 3000\<rparr>))) = 0xFFFFFFFF
   \<and> \<not> 3000 * 100 > proj_GetLongRange testEnv (psWStats testMiss) (player testMiss)
                         * distanceExtensionFactor (psWStats testMiss)
   \<and> state testMiss = PROJ_INFLIGHT
   \<and> state (fst (snd (the (proj_InFlightFunc testEnv (testWorld\<lparr>gameTime := 3000\<rparr>) testMiss))))
       = PROJ_IMPACT"
proof -
  let ?w = "testWorld\<lparr>gameTime := 3000\<rparr>"
  let ?p = "testMiss\<lparr>pos := \<lparr>vec_x = 7000, vec_y = 1000, vec_z = 10\<rparr>, time := 3000\<rparr>"
  have m: "inFlightMovement testEnv ?w testMiss = Some (?p, 3000)"
    using testMiss_moves(2) by simp
  have c: "st_time (fst (closestCollision testEnv ?w ?p)) = 0xFFFFFFFF"
    using testMiss_no_collision [of 3000 7000] by simp
  have r: "proj_GetLongRange testEnv (psWStats testMiss) (player testMiss)
                         * distanceExtensionFactor (psWStats testMiss) = 300000"
    "state testMiss = PROJ_INFLIGHT" "player ?p = player testMiss" "psWStats testMiss = psWStats testMiss"
    by (simp_all add: proj_GetLongRange_def testMiss_def testProjectile_def testStats_def testEnv_def)
  have "proj_InFlightFunc testEnv ?w testMiss
      = Some (fst (setProjectileDestination ?w (?p\<lparr>state := PROJ_IMPACT\<rparr>) None),
              snd (setProjectileDestination ?w (?p\<lparr>state := PROJ_IMPACT\<rparr>) None), None)"
    using proj_InFlightFunc_moved [OF testMiss_not_charging m] c r(1) by (simp add: r(3) i32_def)
  then have "state (fst (snd (the (proj_InFlightFunc testEnv ?w testMiss)))) = PROJ_IMPACT"
    by simp
  then show ?thesis using m c r(1,2) by simp
qed

subsection \<open>Trajectory solver\<close>




























subsection \<open>The perturbation of the speed\<close>








end
